theory Spec2Isabelle
  imports Complex_Main "HOL-Library.Word" "HOL-Library.Log_Nat"
begin

text \<open>
  The component \<^verbatim>\<open>App\<close> of \<^verbatim>\<open>src/App.tsx\<close>: a form with three inputs that is validated,
  posted to a webhook, and whose answer is searched for the URL of a spreadsheet. The
  handlers are functions on the state of the component; what a handler does to the outside
  (the request, the console, the alert) is the list of effects it returns, and what the
  outside answers is an argument.
\<close>

section \<open>Strings of the runtime\<close>

text \<open>
  A JavaScript string is a sequence of 16-bit code units. String literals of the source
  are written through \<open>js\<close>, which maps each character to its code unit.
\<close>

type_synonym code_unit = "16 word"
type_synonym jsstring = "code_unit list"

definition js :: "string \<Rightarrow> jsstring" where
  "js s = map of_char s"

text \<open>
  \<^verbatim>\<open>String.prototype.trim\<close> removes leading and trailing white space and line
  terminators (ECMA-262: TAB, VT, FF, SP, NBSP, ZWNBSP, the category Zs, LF, CR, LS, PS).
\<close>

definition isWhiteSpace :: "code_unit \<Rightarrow> bool" where
  "isWhiteSpace c \<longleftrightarrow>
     c = 0x0009 \<or> c = 0x000A \<or> c = 0x000B \<or> c = 0x000C \<or> c = 0x000D \<or> c = 0x0020 \<or>
     c = 0x00A0 \<or> c = 0x1680 \<or> (0x2000 \<le> c \<and> c \<le> 0x200A) \<or> c = 0x2028 \<or>
     c = 0x2029 \<or> c = 0x202F \<or> c = 0x205F \<or> c = 0x3000 \<or> c = 0xFEFF"

definition trimStart :: "jsstring \<Rightarrow> jsstring" where
  "trimStart s = dropWhile isWhiteSpace s"

definition trim :: "jsstring \<Rightarrow> jsstring" where
  "trim s = rev (dropWhile isWhiteSpace (rev (dropWhile isWhiteSpace s)))"

text \<open>A string is truthy when it is not empty.\<close>

definition truthy_string :: "jsstring \<Rightarrow> bool" where
  "truthy_string s \<longleftrightarrow> s \<noteq> []"

section \<open>Numbers of the runtime\<close>

text \<open>
  A value of the type \<^verbatim>\<open>number\<close> is a double: \<^verbatim>\<open>NaN\<close>, one of the two infinities, or a
  finite double, which \<open>Double v\<close> gives by its exact value \<open>v\<close>.
\<close>

datatype double = NotANumber | PlusInfinity | MinusInfinity | Double rat

text \<open>The comparison \<^verbatim>\<open>a < b\<close>; \<^verbatim>\<open>a > b\<close> is \<^verbatim>\<open>b < a\<close>. A comparison with \<^verbatim>\<open>NaN\<close> is false.\<close>

fun numberLess :: "double \<Rightarrow> double \<Rightarrow> bool" where
  "numberLess NotANumber b = False"
| "numberLess a NotANumber = False"
| "numberLess PlusInfinity b = False"
| "numberLess a MinusInfinity = False"
| "numberLess MinusInfinity b = True"
| "numberLess a PlusInfinity = True"
| "numberLess (Double x) (Double y) = (x < y)"

text \<open>A number is truthy unless it is \<^verbatim>\<open>NaN\<close> or zero.\<close>

definition truthyNumber :: "double \<Rightarrow> bool" where
  "truthyNumber n = (case n of NotANumber \<Rightarrow> False | Double v \<Rightarrow> v \<noteq> 0 | _ \<Rightarrow> True)"

text \<open>\<^verbatim>\<open>Number.isInteger\<close>: a finite double without a fraction.\<close>

definition isInteger :: "double \<Rightarrow> bool" where
  "isInteger n = (case n of Double v \<Rightarrow> v = of_int \<lfloor>v\<rfloor> | _ \<Rightarrow> False)"

section \<open>The component's state\<close>

text \<open>
  \<^verbatim>\<open>interface FormData { searchTerms: string; location: string; numberOfPlaces: number }\<close>.
\<close>

record FormData =
  searchTerms :: jsstring
  location :: jsstring
  numberOfPlaces :: double

text \<open>\<^verbatim>\<open>keyof FormData\<close>.\<close>

datatype field = SearchTerms | Location | NumberOfPlaces

text \<open>
  \<^verbatim>\<open>errors\<close> has type \<^verbatim>\<open>Partial<FormData>\<close>: an object with at most the three keys, read
  only through \<^verbatim>\<open>errors[field]\<close> and its truthiness. A key that is absent and a key set to
  \<^verbatim>\<open>undefined\<close> both read as \<open>None\<close>.
\<close>

type_synonym form_errors = "field \<Rightarrow> jsstring option"

definition truthy_error :: "jsstring option \<Rightarrow> bool" where
  "truthy_error e = (case e of None \<Rightarrow> False | Some m \<Rightarrow> truthy_string m)"

text \<open>The five \<^verbatim>\<open>useState\<close> cells of \<^verbatim>\<open>App\<close>.\<close>

record app_state =
  formData :: FormData
  errors :: form_errors
  isSubmitting :: bool
  googleSheetUrl :: jsstring
  showSuccess :: bool

definition initial_state :: app_state where
  "initial_state =
     \<lparr> formData = \<lparr> searchTerms = [], location = [], numberOfPlaces = Double 10 \<rparr>,
       errors = Map.empty,
       isSubmitting = False,
       googleSheetUrl = [],
       showSuccess = False \<rparr>"

section \<open>handleInputChange\<close>

text \<open>
  The arguments \<^verbatim>\<open>(field, value)\<close> of a call, with the value typed as \<^verbatim>\<open>FormData\<close> types
  the field: the three call sites pass a string for \<^verbatim>\<open>searchTerms\<close> and \<^verbatim>\<open>location\<close>
  and a number for \<^verbatim>\<open>numberOfPlaces\<close>.
\<close>

datatype change =
    SearchTermsChange jsstring
  | LocationChange jsstring
  | NumberOfPlacesChange double

fun field_of :: "change \<Rightarrow> field" where
  "field_of (SearchTermsChange v) = SearchTerms"
| "field_of (LocationChange v) = Location"
| "field_of (NumberOfPlacesChange v) = NumberOfPlaces"

text \<open>\<^verbatim>\<open>{ ...prev, [field]: value }\<close>\<close>

fun set_field :: "change \<Rightarrow> FormData \<Rightarrow> FormData" where
  "set_field (SearchTermsChange v) prev = prev\<lparr>searchTerms := v\<rparr>"
| "set_field (LocationChange v) prev = prev\<lparr>location := v\<rparr>"
| "set_field (NumberOfPlacesChange v) prev = prev\<lparr>numberOfPlaces := v\<rparr>"

text \<open>
  The handler reads \<^verbatim>\<open>errors\<close> and \<^verbatim>\<open>showSuccess\<close> of the render it was created in (the
  state \<open>s\<close>) and queues the updates, which are applied together.
\<close>

definition handleInputChange :: "change \<Rightarrow> app_state \<Rightarrow> app_state" where
  "handleInputChange ch s =
     (let s1 = s\<lparr>formData := set_field ch (formData s)\<rparr>;
          s2 = (if truthy_error (errors s (field_of ch))
                then s1\<lparr>errors := (errors s1)(field_of ch := None)\<rparr>
                else s1);
          s3 = (if showSuccess s
                then s2\<lparr>showSuccess := False, googleSheetUrl := []\<rparr>
                else s2)
      in s3)"

section \<open>validateForm\<close>

text \<open>\<^verbatim>\<open>Object.keys\<close> of an errors object built by \<^verbatim>\<open>validateForm\<close>, in insertion order.\<close>

definition keys :: "form_errors \<Rightarrow> field list" where
  "keys e = filter (\<lambda>f. e f \<noteq> None) [SearchTerms, Location, NumberOfPlaces]"

definition validateForm :: "app_state \<Rightarrow> app_state \<times> bool" where
  "validateForm s =
     (let e0 = Map.empty;
          e1 = (if \<not> truthy_string (trim (searchTerms (formData s)))
                then e0(SearchTerms \<mapsto> js ''Search terms are required'') else e0);
          e2 = (if \<not> truthy_string (trim (location (formData s)))
                then e1(Location \<mapsto> js ''Location is required'') else e1);
          newErrors = (if numberLess (numberOfPlaces (formData s)) (Double 1) \<or>
                          numberLess (Double 100) (numberOfPlaces (formData s))
                then e2(NumberOfPlaces \<mapsto> js ''Number must be between 1 and 100'') else e2)
      in (s\<lparr>errors := newErrors\<rparr>, length (keys newErrors) = 0))"

text \<open>
  A field fails validation, as the contract of the specification words it: a text is
  empty after trimming; the number is not an integer from 1 to 100.
\<close>

definition inIntegerRange :: "double \<Rightarrow> bool" where
  "inIntegerRange n \<longleftrightarrow> isInteger n \<and> \<not> numberLess n (Double 1) \<and> \<not> numberLess (Double 100) n"

fun fails :: "FormData \<Rightarrow> field \<Rightarrow> bool" where
  "fails d SearchTerms \<longleftrightarrow> trim (searchTerms d) = []"
| "fails d Location \<longleftrightarrow> trim (location d) = []"
| "fails d NumberOfPlaces \<longleftrightarrow> \<not> inIntegerRange (numberOfPlaces d)"

text \<open>
  The numbers that the form can hold, as the specification has the field an integer and as
  the change handler of the input stores them: an integer, or an infinity.
\<close>

definition integerOrInfinite :: "double \<Rightarrow> bool" where
  "integerOrInfinite n \<longleftrightarrow> isInteger n \<or> n = PlusInfinity \<or> n = MinusInfinity"

section \<open>The spreadsheet URL pattern\<close>

text \<open>
  Lines 95 and 108 search a string with the same regular expression literal,
  \<^verbatim>\<open>/https:\/\/docs\.google\.com\/spreadsheets\/d\/[a-zA-Z0-9-_]+/\<close>: the literal prefix
  followed by one or more characters of the class (letters, digits, hyphen, underscore).
  The expression has no flags, so it is matched on code units.
\<close>

definition sheetPrefix :: jsstring where
  "sheetPrefix = js ''https://docs.google.com/spreadsheets/d/''"

definition isIdChar :: "code_unit \<Rightarrow> bool" where
  "isIdChar c \<longleftrightarrow>
     (0x61 \<le> c \<and> c \<le> 0x7A) \<or> (0x41 \<le> c \<and> c \<le> 0x5A) \<or> (0x30 \<le> c \<and> c \<le> 0x39) \<or>
     c = 0x2D \<or> c = 0x5F"

text \<open>
  The expression tried at the start of \<open>s\<close>: the prefix, then the longest run of class
  characters, which must not be empty (\<^verbatim>\<open>+\<close> is greedy and nothing follows it).
\<close>

definition match_here :: "jsstring \<Rightarrow> jsstring option" where
  "match_here s =
     (let n = length sheetPrefix; ident = takeWhile isIdChar (drop n s)
      in if take n s = sheetPrefix \<and> ident \<noteq> [] then Some (sheetPrefix @ ident) else None)"

text \<open>
  \<^verbatim>\<open>str.match(regex)\<close> for an expression without the flag \<^verbatim>\<open>g\<close>: the expression is tried
  at index 0, 1, 2, ... and the first success is the result \<^verbatim>\<open>urlMatch[0]\<close>; \<open>None\<close> is \<^verbatim>\<open>null\<close>.
\<close>

fun sheetUrlMatch :: "jsstring \<Rightarrow> jsstring option" where
  "sheetUrlMatch [] = None"
| "sheetUrlMatch (c # cs) =
     (case match_here (c # cs) of Some m \<Rightarrow> Some m | None \<Rightarrow> sheetUrlMatch cs)"

text \<open>A string is the prefix followed by one or more class characters and nothing else.\<close>

definition is_sheet_url :: "jsstring \<Rightarrow> bool" where
  "is_sheet_url u \<longleftrightarrow>
     take (length sheetPrefix) u = sheetPrefix \<and> drop (length sheetPrefix) u \<noteq> [] \<and>
     list_all isIdChar (drop (length sheetPrefix) u)"

text \<open>The pattern occurs in \<open>s\<close> at index \<open>i\<close>.\<close>

definition occurs_at :: "jsstring \<Rightarrow> nat \<Rightarrow> bool" where
  "occurs_at s i \<longleftrightarrow> (\<exists>u. is_sheet_url u \<and> take (length u) (drop i s) = u)"

section \<open>JSON values\<close>

text \<open>
  What \<^verbatim>\<open>JSON.parse\<close> returns. A number is kept as the exact value of its literal; where
  the code depends on the double it rounds to (whether it is zero, whether it is positive),
  \<open>roundsToZero\<close> below decides that on the exact value. The members of an object are
  kept in the order of the text.
\<close>

datatype json =
    JNull
  | JBool bool
  | JNumber rat
  | JString jsstring
  | JArray "json list"
  | JObject "(jsstring \<times> json) list"

text \<open>Digits, and the value of a run of digits in a radix.\<close>

definition isDigit :: "code_unit \<Rightarrow> bool" where
  "isDigit c \<longleftrightarrow> 0x30 \<le> c \<and> c \<le> 0x39"

definition digitValue :: "code_unit \<Rightarrow> nat option" where
  "digitValue c =
     (if 0x30 \<le> c \<and> c \<le> 0x39 then Some (unat c - 0x30)
      else if 0x61 \<le> c \<and> c \<le> 0x7A then Some (unat c - 0x61 + 10)
      else if 0x41 \<le> c \<and> c \<le> 0x5A then Some (unat c - 0x41 + 10)
      else None)"

definition isRadixDigit :: "nat \<Rightarrow> code_unit \<Rightarrow> bool" where
  "isRadixDigit R c = (case digitValue c of None \<Rightarrow> False | Some d \<Rightarrow> d < R)"

definition digitsValue :: "nat \<Rightarrow> jsstring \<Rightarrow> nat" where
  "digitsValue R ds = foldl (\<lambda>acc c. acc * R + (case digitValue c of None \<Rightarrow> 0 | Some d \<Rightarrow> d)) 0 ds"

text \<open>
  The value of a decimal literal with integer digits \<open>ip\<close>, fraction digits \<open>fp\<close> and
  exponent \<open>e\<close>.
\<close>

definition decimalValue :: "jsstring \<Rightarrow> jsstring \<Rightarrow> int \<Rightarrow> rat" where
  "decimalValue ip fp e =
     (let m = of_nat (digitsValue 10 (ip @ fp)); x = e - int (length fp)
      in if 0 \<le> x then m * 10 ^ nat x else m / 10 ^ nat (- x))"

text \<open>
  An optional exponent part (\<^verbatim>\<open>e\<close> or \<^verbatim>\<open>E\<close>, an optional sign, one or more digits) at the
  start of \<open>s\<close>: its value and the rest of \<open>s\<close>; \<open>None\<close> when the digits are missing.
\<close>

definition exponentPart :: "jsstring \<Rightarrow> (int \<times> jsstring) option" where
  "exponentPart s =
     (case s of
        [] \<Rightarrow> Some (0, s)
      | c # cs \<Rightarrow>
          if c = 0x65 \<or> c = 0x45 then
            (let (neg, t) = (case cs of [] \<Rightarrow> (False, cs)
                             | g # gs \<Rightarrow> if g = 0x2D then (True, gs)
                                        else if g = 0x2B then (False, gs) else (False, cs));
                 ds = takeWhile isDigit t
             in if ds = [] then None
                else Some ((if neg then - int (digitsValue 10 ds) else int (digitsValue 10 ds)),
                           dropWhile isDigit t))
          else Some (0, s))"

section \<open>JSON.parse\<close>

text \<open>
  \<^verbatim>\<open>JSON.parse(text)\<close> of the runtime, after the JSON grammar of ECMA-262: the text is cut
  into tokens, and the tokens are read by a machine with a stack of the arrays and objects
  that are open. \<open>None\<close> stands for the \<^verbatim>\<open>SyntaxError\<close> it throws.
\<close>

datatype token =
    TLBracket | TRBracket | TLBrace | TRBrace | TColon | TComma
  | TString jsstring
  | TLit json

definition isJSONWhiteSpace :: "code_unit \<Rightarrow> bool" where
  "isJSONWhiteSpace c \<longleftrightarrow> c = 0x09 \<or> c = 0x0A \<or> c = 0x0D \<or> c = 0x20"

text \<open>The character after a backslash in a string, other than \<^verbatim>\<open>u\<close>.\<close>

definition escapeChar :: "code_unit \<Rightarrow> code_unit option" where
  "escapeChar e =
     (if e = 0x22 then Some 0x22
      else if e = 0x2F then Some 0x2F
      else if e = 0x5C then Some 0x5C
      else if e = 0x62 then Some 0x08
      else if e = 0x66 then Some 0x0C
      else if e = 0x6E then Some 0x0A
      else if e = 0x72 then Some 0x0D
      else if e = 0x74 then Some 0x09
      else None)"

definition hex4 :: "code_unit \<Rightarrow> code_unit \<Rightarrow> code_unit \<Rightarrow> code_unit \<Rightarrow> code_unit option" where
  "hex4 a b c d =
     (if isRadixDigit 16 a \<and> isRadixDigit 16 b \<and> isRadixDigit 16 c \<and> isRadixDigit 16 d
      then Some (of_nat (digitsValue 16 [a, b, c, d])) else None)"

definition consTo :: "code_unit \<Rightarrow> (jsstring \<times> jsstring) option \<Rightarrow> (jsstring \<times> jsstring) option" where
  "consTo u r = (case r of None \<Rightarrow> None | Some (s, rest) \<Rightarrow> Some (u # s, rest))"

text \<open>
  The characters of a string after its opening quote, up to the closing quote: the string
  they denote and the rest of the text. Control characters below U+0020 are not allowed.
\<close>

fun lexString :: "jsstring \<Rightarrow> (jsstring \<times> jsstring) option" where
  "lexString [] = None"
| "lexString (c # cs) =
     (if c = 0x22 then Some ([], cs)
      else if c = 0x5C then
        (case cs of
           [] \<Rightarrow> None
         | e # es \<Rightarrow>
             if e = 0x75 then
               (case es of
                  h1 # h2 # h3 # h4 # rest \<Rightarrow>
                    (case hex4 h1 h2 h3 h4 of
                       None \<Rightarrow> None
                     | Some u \<Rightarrow> consTo u (lexString rest))
                | _ \<Rightarrow> None)
             else
               (case escapeChar e of
                  None \<Rightarrow> None
                | Some u \<Rightarrow> consTo u (lexString es)))
      else if c < 0x20 then None
      else consTo c (lexString cs))"

text \<open>
  A number: an optional minus, the integer part (a single 0, or a run of digits that does
  not start with 0), an optional fraction with one or more digits, an optional exponent.
\<close>

definition lexInt :: "jsstring \<Rightarrow> (jsstring \<times> jsstring) option" where
  "lexInt s =
     (case s of
        [] \<Rightarrow> None
      | c # cs \<Rightarrow>
          if c = 0x30 then Some ([c], cs)
          else if isDigit c then Some (takeWhile isDigit s, dropWhile isDigit s)
          else None)"

definition lexFraction :: "jsstring \<Rightarrow> (jsstring \<times> jsstring) option" where
  "lexFraction s =
     (case s of
        [] \<Rightarrow> Some ([], s)
      | c # cs \<Rightarrow>
          if c = 0x2E
          then (if takeWhile isDigit cs = [] then None
                else Some (takeWhile isDigit cs, dropWhile isDigit cs))
          else Some ([], s))"

definition lexNumber :: "jsstring \<Rightarrow> (rat \<times> jsstring) option" where
  "lexNumber s =
     (let neg = (s \<noteq> [] \<and> hd s = 0x2D); s1 = (if neg then tl s else s)
      in case lexInt s1 of
           None \<Rightarrow> None
         | Some (ip, s2) \<Rightarrow>
             (case lexFraction s2 of
                None \<Rightarrow> None
              | Some (fp, s3) \<Rightarrow>
                  (case exponentPart s3 of
                     None \<Rightarrow> None
                   | Some (e, s4) \<Rightarrow>
                       Some ((if neg then - decimalValue ip fp e else decimalValue ip fp e), s4))))"

definition consTok :: "token \<Rightarrow> token list option \<Rightarrow> token list option" where
  "consTok t r = (case r of None \<Rightarrow> None | Some ts \<Rightarrow> Some (t # ts))"

text \<open>Each token consumes input, which is why \<open>tokenize\<close> terminates.\<close>

lemma consTo_Some: "consTo u r = Some (s, rest) \<Longrightarrow> \<exists>s'. r = Some (s', rest)"
  by (auto simp: consTo_def split: option.splits)

lemma lexString_length: "lexString cs = Some (s, rest) \<Longrightarrow> length rest < length cs"
proof (induction cs arbitrary: s rule: lexString.induct)
  case 1
  then show ?case by simp
next
  case (2 c cs)
  from "2.prems" "2.IH" show ?case
    by (auto split: if_splits list.splits option.splits dest!: consTo_Some) fastforce+
qed

lemma exponentPart_length: "exponentPart s = Some (e, rest) \<Longrightarrow> length rest \<le> length s"
  by (auto simp: exponentPart_def Let_def length_dropWhile_le le_SucI
      split: list.splits if_splits prod.splits)

lemma lexInt_length: "lexInt s = Some (ip, rest) \<Longrightarrow> length rest < length s"
  by (auto simp: lexInt_def length_dropWhile_le less_Suc_eq_le split: list.splits if_splits)

lemma lexFraction_length: "lexFraction s = Some (fp, rest) \<Longrightarrow> length rest \<le> length s"
  by (auto simp: lexFraction_def length_dropWhile_le le_SucI split: list.splits if_splits)

lemma lexNumber_length:
  assumes "lexNumber s = Some (v, rest)"
  shows "length rest < length s"
proof -
  define s1 where "s1 = (if s \<noteq> [] \<and> hd s = 0x2D then tl s else s)"
  from assms obtain ip s2 fp s3 e where
    "lexInt s1 = Some (ip, s2)" "lexFraction s2 = Some (fp, s3)" "exponentPart s3 = Some (e, rest)"
    by (auto simp: lexNumber_def Let_def s1_def split: option.splits)
  then have "length rest < length s1"
    using lexInt_length lexFraction_length exponentPart_length
    by (meson le_trans less_le_trans not_less)
  moreover have "length s1 \<le> length s"
    by (simp add: s1_def)
  ultimately show ?thesis by simp
qed

function tokenize :: "jsstring \<Rightarrow> token list option" where
  "tokenize [] = Some []"
| "tokenize (c # cs) =
     (if isJSONWhiteSpace c then tokenize cs
      else if c = 0x5B then consTok TLBracket (tokenize cs)
      else if c = 0x5D then consTok TRBracket (tokenize cs)
      else if c = 0x7B then consTok TLBrace (tokenize cs)
      else if c = 0x7D then consTok TRBrace (tokenize cs)
      else if c = 0x3A then consTok TColon (tokenize cs)
      else if c = 0x2C then consTok TComma (tokenize cs)
      else if c = 0x22 then
        (case lexString cs of
           None \<Rightarrow> None
         | Some (s, rest) \<Rightarrow> consTok (TString s) (tokenize rest))
      else if c = 0x2D \<or> isDigit c then
        (case lexNumber (c # cs) of
           None \<Rightarrow> None
         | Some (v, rest) \<Rightarrow> consTok (TLit (JNumber v)) (tokenize rest))
      else if take 4 (c # cs) = js ''true'' then consTok (TLit (JBool True)) (tokenize (drop 3 cs))
      else if take 5 (c # cs) = js ''false'' then consTok (TLit (JBool False)) (tokenize (drop 4 cs))
      else if take 4 (c # cs) = js ''null'' then consTok (TLit JNull) (tokenize (drop 3 cs))
      else None)"
  by pat_completeness auto
termination
  by (relation "measure length")
    (auto dest!: lexString_length lexNumber_length)

text \<open>
  The reader of the tokens. An open array has read nothing yet, or a value, or a comma; an
  open object has read nothing yet, or a name, or a name and its colon, or a member, or a
  comma. A configuration is the stack of open arrays and objects, innermost first, and
  the finished value once the outermost is closed.
\<close>

datatype array_state = AStart | AAfterValue | AAfterComma

datatype object_state =
    OStart | OAfterKey jsstring | OAfterColon jsstring | OAfterValue | OAfterComma

datatype frame =
    ArrayFrame "json list" array_state
  | ObjectFrame "(jsstring \<times> json) list" object_state

type_synonym config = "frame list \<times> json option"

text \<open>A value may come next; \<open>put\<close> hands a finished value to the configuration.\<close>

fun valueExpected :: "config \<Rightarrow> bool" where
  "valueExpected ([], r) = (r = None)"
| "valueExpected (ArrayFrame xs st # fs, r) = (st = AStart \<or> st = AAfterComma)"
| "valueExpected (ObjectFrame ms st # fs, r) = (case st of OAfterColon k \<Rightarrow> True | _ \<Rightarrow> False)"

fun put :: "json \<Rightarrow> config \<Rightarrow> config option" where
  "put v ([], r) = (if r = None then Some ([], Some v) else None)"
| "put v (ArrayFrame xs st # fs, r) =
     (if st = AStart \<or> st = AAfterComma then Some (ArrayFrame (xs @ [v]) AAfterValue # fs, r)
      else None)"
| "put v (ObjectFrame ms st # fs, r) =
     (case st of
        OAfterColon k \<Rightarrow> Some (ObjectFrame (ms @ [(k, v)]) OAfterValue # fs, r)
      | _ \<Rightarrow> None)"

fun step :: "token \<Rightarrow> config \<Rightarrow> config option" where
  "step (TLit v) cfg = put v cfg"
| "step (TString s) (ObjectFrame ms st # fs, r) =
     (if st = OStart \<or> st = OAfterComma then Some (ObjectFrame ms (OAfterKey s) # fs, r)
      else put (JString s) (ObjectFrame ms st # fs, r))"
| "step (TString s) cfg = put (JString s) cfg"
| "step TLBracket (fs, r) =
     (if valueExpected (fs, r) then Some (ArrayFrame [] AStart # fs, r) else None)"
| "step TLBrace (fs, r) =
     (if valueExpected (fs, r) then Some (ObjectFrame [] OStart # fs, r) else None)"
| "step TRBracket (ArrayFrame xs st # fs, r) =
     (if st = AStart \<or> st = AAfterValue then put (JArray xs) (fs, r) else None)"
| "step TRBracket cfg = None"
| "step TRBrace (ObjectFrame ms st # fs, r) =
     (if st = OStart \<or> st = OAfterValue then put (JObject ms) (fs, r) else None)"
| "step TRBrace cfg = None"
| "step TComma (ArrayFrame xs st # fs, r) =
     (if st = AAfterValue then Some (ArrayFrame xs AAfterComma # fs, r) else None)"
| "step TComma (ObjectFrame ms st # fs, r) =
     (if st = OAfterValue then Some (ObjectFrame ms OAfterComma # fs, r) else None)"
| "step TComma cfg = None"
| "step TColon (ObjectFrame ms st # fs, r) =
     (case st of OAfterKey k \<Rightarrow> Some (ObjectFrame ms (OAfterColon k) # fs, r) | _ \<Rightarrow> None)"
| "step TColon cfg = None"

fun run :: "token list \<Rightarrow> config \<Rightarrow> config option" where
  "run [] cfg = Some cfg"
| "run (t # ts) cfg = (case step t cfg of None \<Rightarrow> None | Some cfg' \<Rightarrow> run ts cfg')"

definition parseTokens :: "token list \<Rightarrow> json option" where
  "parseTokens ts = (case run ts ([], None) of Some ([], Some v) \<Rightarrow> Some v | _ \<Rightarrow> None)"

definition JSON_parse :: "jsstring \<Rightarrow> json option" where
  "JSON_parse text = (case tokenize text of None \<Rightarrow> None | Some ts \<Rightarrow> parseTokens ts)"

section \<open>Operations of the language on parsed values\<close>

text \<open>
  The condition of line 93 applies truthiness, property reads and \<^verbatim>\<open>> 0\<close> to whatever
  \<^verbatim>\<open>JSON.parse\<close> returned, so these are given for every JSON value, after ECMA-262.

  A real rounds to the double zero exactly when its magnitude is at most half the least
  subnormal double, \<open>2 ^ -1075\<close>.
\<close>

definition roundsToZero :: "rat \<Rightarrow> bool" where
  "roundsToZero v \<longleftrightarrow> \<bar>v\<bar> \<le> 1 / 2 ^ 1075"

text \<open>A number as far as its sign matters: \<open>Finite v\<close> is the double nearest to \<open>v\<close>.\<close>

datatype number = NaN | Infinity | NegInfinity | Finite rat

fun numberPositive :: "number \<Rightarrow> bool" where
  "numberPositive NaN = False"
| "numberPositive Infinity = True"
| "numberPositive NegInfinity = False"
| "numberPositive (Finite v) = (0 < v \<and> \<not> roundsToZero v)"

text \<open>
  The conversion of a string to a number (\<^verbatim>\<open>StringToNumber\<close>): white space is trimmed; the
  empty string is 0; a hexadecimal, octal or binary literal has no sign; otherwise a sign
  and \<^verbatim>\<open>Infinity\<close> or a decimal literal; anything else is \<^verbatim>\<open>NaN\<close>.
\<close>

definition nonDecimalLiteral :: "nat \<Rightarrow> jsstring \<Rightarrow> number" where
  "nonDecimalLiteral R ds =
     (if ds \<noteq> [] \<and> list_all (isRadixDigit R) ds then Finite (of_nat (digitsValue R ds)) else NaN)"

definition unsignedDecimalLiteral :: "jsstring \<Rightarrow> rat option" where
  "unsignedDecimalLiteral s =
     (let ip = takeWhile isDigit s; s1 = dropWhile isDigit s;
          dot = (s1 \<noteq> [] \<and> hd s1 = 0x2E);
          fp = (if dot then takeWhile isDigit (tl s1) else []);
          s2 = (if dot then dropWhile isDigit (tl s1) else s1)
      in if ip = [] \<and> fp = [] then None
         else (case exponentPart s2 of
                 None \<Rightarrow> None
               | Some (e, s3) \<Rightarrow> if s3 = [] then Some (decimalValue ip fp e) else None))"

definition StringToNumber :: "jsstring \<Rightarrow> number" where
  "StringToNumber s =
     (let t = trim s
      in if t = [] then Finite 0
         else if take 2 t = js ''0x'' \<or> take 2 t = js ''0X'' then nonDecimalLiteral 16 (drop 2 t)
         else if take 2 t = js ''0o'' \<or> take 2 t = js ''0O'' then nonDecimalLiteral 8 (drop 2 t)
         else if take 2 t = js ''0b'' \<or> take 2 t = js ''0B'' then nonDecimalLiteral 2 (drop 2 t)
         else
           (let neg = (hd t = 0x2D); u = (if hd t = 0x2D \<or> hd t = 0x2B then tl t else t)
            in if u = js ''Infinity'' then (if neg then NegInfinity else Infinity)
               else (case unsignedDecimalLiteral u of
                       None \<Rightarrow> NaN
                     | Some v \<Rightarrow> Finite (if neg then - v else v))))"

text \<open>Truthiness of a value; \<^verbatim>\<open>undefined\<close> is falsy and is handled where it can arise.\<close>

fun truthy :: "json \<Rightarrow> bool" where
  "truthy JNull = False"
| "truthy (JBool b) = b"
| "truthy (JNumber v) = (\<not> roundsToZero v)"
| "truthy (JString s) = (s \<noteq> [])"
| "truthy (JArray xs) = True"
| "truthy (JObject ms) = True"

text \<open>An own property of a parsed object: of two members with one name the later stands.\<close>

definition ownProperty :: "(jsstring \<times> json) list \<Rightarrow> jsstring \<Rightarrow> json option" where
  "ownProperty ms k = map_of (rev ms) k"

text \<open>
  What the inner \<^verbatim>\<open>try\<close> block can throw: an \<^verbatim>\<open>Error\<close> made by the source with its message,
  a \<^verbatim>\<open>TypeError\<close> of the runtime, the \<^verbatim>\<open>SyntaxError\<close> of \<^verbatim>\<open>JSON.parse\<close>.
\<close>

datatype exn = Error jsstring | TypeError | SyntaxError

text \<open>
  \<^verbatim>\<open>x > 0\<close> converts \<open>x\<close> to a primitive and then to a number. An object becomes
  \<^verbatim>\<open>"[object Object]"\<close>, unless it has an own property \<^verbatim>\<open>toString\<close> (never a function in
  parsed JSON), in which case the conversion throws; an array becomes its elements joined
  by commas, \<^verbatim>\<open>null\<close> as the empty string. So an array is positive only when it has one
  element whose text is a positive number.
\<close>

fun toStringThrows :: "json \<Rightarrow> bool" where
  "toStringThrows (JObject ms) = (ownProperty ms (js ''toString'') \<noteq> None)"
| "toStringThrows (JArray xs) = list_ex toStringThrows xs"
| "toStringThrows v = False"

fun textPositive :: "json \<Rightarrow> bool" where
  "textPositive JNull = False"
| "textPositive (JBool b) = False"
| "textPositive (JNumber v) = numberPositive (Finite v)"
| "textPositive (JString s) = numberPositive (StringToNumber s)"
| "textPositive (JObject ms) = False"
| "textPositive (JArray []) = False"
| "textPositive (JArray [x]) = textPositive x"
| "textPositive (JArray (x # y # zs)) = False"

definition greaterThanZero :: "json option \<Rightarrow> exn + bool" where
  "greaterThanZero x =
     (case x of
        None \<Rightarrow> Inr False
      | Some v \<Rightarrow>
          if toStringThrows v then Inl TypeError
          else Inr (case v of JBool b \<Rightarrow> b | _ \<Rightarrow> textPositive v))"

text \<open>
  The three property reads of line 93: \<^verbatim>\<open>v.length\<close>, \<^verbatim>\<open>v[0]\<close> and
  \<^verbatim>\<open>x['Set Webhook Information']\<close>. \<open>None\<close> is \<^verbatim>\<open>undefined\<close>; a read from \<^verbatim>\<open>null\<close> or
  \<^verbatim>\<open>undefined\<close> throws. Strings and arrays have a length and indexed elements; no
  prototype has any of the three names.
\<close>

definition lengthOf :: "json \<Rightarrow> exn + json option" where
  "lengthOf v =
     (case v of
        JNull \<Rightarrow> Inl TypeError
      | JBool b \<Rightarrow> Inr None
      | JNumber n \<Rightarrow> Inr None
      | JString s \<Rightarrow> Inr (Some (JNumber (of_nat (length s))))
      | JArray xs \<Rightarrow> Inr (Some (JNumber (of_nat (length xs))))
      | JObject ms \<Rightarrow> Inr (ownProperty ms (js ''length'')))"

definition elementZero :: "json \<Rightarrow> exn + json option" where
  "elementZero v =
     (case v of
        JNull \<Rightarrow> Inl TypeError
      | JBool b \<Rightarrow> Inr None
      | JNumber n \<Rightarrow> Inr None
      | JString s \<Rightarrow> Inr (case s of [] \<Rightarrow> None | c # cs \<Rightarrow> Some (JString [c]))
      | JArray xs \<Rightarrow> Inr (case xs of [] \<Rightarrow> None | x # ys \<Rightarrow> Some x)
      | JObject ms \<Rightarrow> Inr (ownProperty ms (js ''0'')))"

definition webhookInformation :: "json option \<Rightarrow> exn + json option" where
  "webhookInformation x =
     (case x of
        None \<Rightarrow> Inl TypeError
      | Some JNull \<Rightarrow> Inl TypeError
      | Some (JObject ms) \<Rightarrow> Inr (ownProperty ms (js ''Set Webhook Information''))
      | Some v \<Rightarrow> Inr None)"

section \<open>parseInt and the change handlers of the three inputs\<close>

text \<open>
  The double nearest to a natural number, ties to the even neighbour: a number of more than
  53 bits keeps its leading 53 bits, rounded. \<open>None\<close> when the number is beyond the largest
  double.
\<close>

definition roundToDouble :: "nat \<Rightarrow> nat option" where
  "roundToDouble n =
     (let e = floorlog 2 n - 53; q = n div 2 ^ e; r = n mod 2 ^ e;
          m = (if 2 ^ e < 2 * r \<or> (2 ^ e = 2 * r \<and> odd q) then q + 1 else q) * 2 ^ e
      in if 2 ^ 1024 \<le> m then None else Some m)"

text \<open>The number for an integer: the nearest double, or an infinity beyond the doubles.\<close>

definition toDouble :: "int \<Rightarrow> double" where
  "toDouble i =
     (case roundToDouble (nat \<bar>i\<bar>) of
        None \<Rightarrow> if i < 0 then MinusInfinity else PlusInfinity
      | Some m \<Rightarrow> Double (of_int (if i < 0 then - int m else int m)))"

text \<open>
  \<^verbatim>\<open>parseInt(string)\<close> with no radix, after ECMA-262: leading white space is skipped, a
  sign is read, a prefix \<^verbatim>\<open>0x\<close> selects radix 16, and the longest run of digits is the
  integer read; the result is \<^verbatim>\<open>NaN\<close> when there is no digit, and otherwise the number for
  the integer. (Beyond 20 significant digits ECMA-262 lets an implementation approximate
  the integer before rounding; here it is rounded exactly, as engines do.)
\<close>

definition parseInt :: "jsstring \<Rightarrow> double" where
  "parseInt inputString =
     (let s = trimStart inputString;
          neg = (s \<noteq> [] \<and> hd s = 0x2D);
          s1 = (if s \<noteq> [] \<and> (hd s = 0x2B \<or> hd s = 0x2D) then tl s else s);
          hex = (take 2 s1 = js ''0x'' \<or> take 2 s1 = js ''0X'');
          R = (if hex then 16 else 10);
          s2 = (if hex then drop 2 s1 else s1);
          z = takeWhile (isRadixDigit R) s2
      in if z = [] then NotANumber
         else toDouble (if neg then - int (digitsValue R z) else int (digitsValue R z)))"

text \<open>\<^verbatim>\<open>parseInt(e.target.value) || 0\<close>: \<^verbatim>\<open>NaN\<close> and zero are falsy.\<close>

definition parseIntOrZero :: "jsstring \<Rightarrow> double" where
  "parseIntOrZero v = (if truthyNumber (parseInt v) then parseInt v else Double 0)"

definition searchTermsOnChange :: "jsstring \<Rightarrow> app_state \<Rightarrow> app_state" where
  "searchTermsOnChange v s = handleInputChange (SearchTermsChange v) s"

definition locationOnChange :: "jsstring \<Rightarrow> app_state \<Rightarrow> app_state" where
  "locationOnChange v s = handleInputChange (LocationChange v) s"

definition numberOfPlacesOnChange :: "jsstring \<Rightarrow> app_state \<Rightarrow> app_state" where
  "numberOfPlacesOnChange v s = handleInputChange (NumberOfPlacesChange (parseIntOrZero v)) s"

section \<open>The request and the response\<close>

text \<open>
  The object given to \<^verbatim>\<open>JSON.stringify\<close>: the three fields of the form and the time stamp
  \<^verbatim>\<open>new Date().toISOString()\<close>, which the environment supplies.
\<close>

record request_body = FormData +
  timestamp :: jsstring

record request =
  url :: jsstring
  httpMethod :: jsstring
  contentType :: jsstring
  body :: request_body

definition webhookUrl :: jsstring where
  "webhookUrl =
     js ''https://salesmagicautomation.app.n8n.cloud/webhook-test/24f2c0fd-6f4f-47ec-b6ec-e25960142a04''"

definition makeRequest :: "jsstring \<Rightarrow> FormData \<Rightarrow> request" where
  "makeRequest now d =
     \<lparr> url = webhookUrl,
       httpMethod = js ''POST'',
       contentType = js ''application/json'',
       body = \<lparr> searchTerms = searchTerms d, location = location d,
                numberOfPlaces = numberOfPlaces d, timestamp = now \<rparr> \<rparr>"

text \<open>
  What reaches the outer \<^verbatim>\<open>catch (error)\<close>: an instance of \<^verbatim>\<open>Error\<close> with its message, or any
  other value a promise was rejected with.
\<close>

datatype thrown = ErrorInstance jsstring | OtherValue

text \<open>
  What an awaited promise does: it is fulfilled with a value, it is rejected with a reason,
  or it stays pending for ever; the code sets no time limit and never aborts a request.
\<close>

datatype 'a promise = Fulfilled 'a | Rejected thrown | Pending

text \<open>
  The response: its status and what \<^verbatim>\<open>response.text()\<close> does. \<^verbatim>\<open>response.ok\<close> is true for
  a status from 200 to 299.
\<close>

record response =
  status :: nat
  textResult :: "jsstring promise"

definition ok :: "response \<Rightarrow> bool" where
  "ok r \<longleftrightarrow> 200 \<le> status r \<and> status r \<le> 299"

text \<open>The decimal digits of a number, as a template literal prints it.\<close>

fun decimal :: "nat \<Rightarrow> jsstring" where
  "decimal n = (if n < 10 then [of_nat (48 + n)] else decimal (n div 10) @ [of_nat (48 + n mod 10)])"

section \<open>handleSubmit\<close>

datatype effect =
    Fetch request
  | ConsoleLog jsstring jsstring
  | ConsoleError jsstring thrown
  | Alert jsstring

definition sheetKey :: jsstring where
  "sheetKey = js ''Set Webhook Information''"

text \<open>
  The condition of line 93,
  \<^verbatim>\<open>responseData && responseData.length > 0 && responseData[0]['Set Webhook Information']\<close>,
  evaluated left to right; a property read of \<^verbatim>\<open>null\<close> or \<^verbatim>\<open>undefined\<close> throws.
\<close>

definition hasWebhookInformation :: "json \<Rightarrow> exn + bool" where
  "hasWebhookInformation responseData =
     (if \<not> truthy responseData then Inr False
      else case lengthOf responseData of
             Inl e \<Rightarrow> Inl e
           | Inr len \<Rightarrow>
               (case greaterThanZero len of
                  Inl e \<Rightarrow> Inl e
                | Inr False \<Rightarrow> Inr False
                | Inr True \<Rightarrow>
                    (case elementZero responseData of
                       Inl e \<Rightarrow> Inl e
                     | Inr first \<Rightarrow>
                         (case webhookInformation first of
                            Inl e \<Rightarrow> Inl e
                          | Inr None \<Rightarrow> Inr False
                          | Inr (Some info) \<Rightarrow> Inr (truthy info)))))"

text \<open>
  \<^verbatim>\<open>responseData[0]['Set Webhook Information']\<close> read again for \<^verbatim>\<open>webhookInfo\<close>, and
  \<^verbatim>\<open>webhookInfo.match(..)\<close>: only a string has the method.
\<close>

definition matchWebhookInfo :: "json \<Rightarrow> exn + jsstring" where
  "matchWebhookInfo responseData =
     (case elementZero responseData of
        Inl e \<Rightarrow> Inl e
      | Inr first \<Rightarrow>
          (case webhookInformation first of
             Inl e \<Rightarrow> Inl e
           | Inr (Some (JString webhookInfo)) \<Rightarrow>
               (case sheetUrlMatch webhookInfo of
                  Some urlMatch \<Rightarrow> Inr urlMatch
                | None \<Rightarrow> Inl (Error (js ''Google Sheet URL not found in response'')))
           | Inr other \<Rightarrow> Inl TypeError))"

text \<open>The body of the inner \<^verbatim>\<open>try\<close> (lines 90 to 105): the URL it sets, or what it throws.\<close>

definition tryJson :: "jsstring \<Rightarrow> exn + jsstring" where
  "tryJson responseText =
     (case JSON_parse responseText of
        None \<Rightarrow> Inl SyntaxError
      | Some responseData \<Rightarrow>
          (case hasWebhookInformation responseData of
             Inl e \<Rightarrow> Inl e
           | Inr True \<Rightarrow> matchWebhookInfo responseData
           | Inr False \<Rightarrow> Inl (Error (js ''Invalid response format''))))"

text \<open>
  The inner \<^verbatim>\<open>try\<close> with its \<^verbatim>\<open>catch (jsonError)\<close> (lines 89 to 116): the handler does not
  look at what was thrown.
\<close>

definition extractUrl :: "jsstring \<Rightarrow> thrown + jsstring" where
  "extractUrl responseText =
     (case tryJson responseText of
        Inr urlMatch \<Rightarrow> Inr urlMatch
      | Inl jsonError \<Rightarrow>
          (case sheetUrlMatch responseText of
             Some urlMatch \<Rightarrow> Inr urlMatch
           | None \<Rightarrow>
               Inl (ErrorInstance (js ''Response is not valid JSON and no Google Sheet URL found''))))"

text \<open>
  The body of the outer \<^verbatim>\<open>try\<close> from the \<^verbatim>\<open>await fetch(..)\<close> on: what it logs, and the URL
  it sets or what it throws. \<open>None\<close> when one of the two awaited promises stays pending: the
  function is suspended at that \<^verbatim>\<open>await\<close> and runs no further.
\<close>

definition interpretResponse ::
  "response promise \<Rightarrow> (effect list \<times> (thrown + jsstring)) option" where
  "interpretResponse outcome =
     (case outcome of
        Pending \<Rightarrow> None
      | Rejected e \<Rightarrow> Some ([], Inl e)
      | Fulfilled r \<Rightarrow>
          if ok r then
            (case textResult r of
               Pending \<Rightarrow> None
             | Rejected e \<Rightarrow> Some ([], Inl e)
             | Fulfilled responseText \<Rightarrow>
                 Some ([ConsoleLog (js ''Webhook response:'') responseText],
                       extractUrl responseText))
          else Some ([], Inl (ErrorInstance (js ''HTTP error! status: '' @ decimal (status r)))))"

definition errorMessage :: "thrown \<Rightarrow> jsstring" where
  "errorMessage error =
     (case error of ErrorInstance m \<Rightarrow> m | OtherValue \<Rightarrow> js ''Unknown error occurred'')"

text \<open>
  The continuation of \<^verbatim>\<open>handleSubmit\<close> after \<^verbatim>\<open>await fetch(..)\<close>: the state updates of the
  \<^verbatim>\<open>try\<close>, the \<^verbatim>\<open>catch\<close> and the \<^verbatim>\<open>finally\<close>, applied to the state current at that time.
  While a promise stays pending nothing is updated: the \<^verbatim>\<open>finally\<close> is not reached.
\<close>

definition settle :: "response promise \<Rightarrow> app_state \<Rightarrow> app_state \<times> effect list" where
  "settle outcome s =
     (case interpretResponse outcome of
        None \<Rightarrow> (s, [])
      | Some (fx, Inr urlMatch) \<Rightarrow>
          (s\<lparr>googleSheetUrl := urlMatch, showSuccess := True, isSubmitting := False\<rparr>, fx)
      | Some (fx, Inl error) \<Rightarrow>
          (s\<lparr>isSubmitting := False\<rparr>,
           fx @ [ConsoleError (js ''Error submitting form:'') error,
                 Alert (js ''Error submitting form: '' @ errorMessage error)]))"

text \<open>
  The synchronous part of \<^verbatim>\<open>handleSubmit\<close>, up to the call of \<^verbatim>\<open>fetch\<close>: the new state and
  the request, if one is sent.
\<close>

definition submitStart :: "jsstring \<Rightarrow> app_state \<Rightarrow> app_state \<times> request option" where
  "submitStart now s =
     (case validateForm s of
        (s1, False) \<Rightarrow> (s1, None)
      | (s1, True) \<Rightarrow>
          (s1\<lparr>isSubmitting := True, showSuccess := False, googleSheetUrl := []\<rparr>,
           Some (makeRequest now (formData s))))"

text \<open>
  One submission attempt, as far as it ever runs. The environment gives the time stamp
  and says what the request does.
\<close>

definition handleSubmit ::
  "jsstring \<Rightarrow> (request \<Rightarrow> response promise) \<Rightarrow> app_state \<Rightarrow> app_state \<times> effect list" where
  "handleSubmit now fetch s =
     (case submitStart now s of
        (s1, None) \<Rightarrow> (s1, [])
      | (s1, Some req) \<Rightarrow>
          (case settle (fetch req) s1 of (s2, fx) \<Rightarrow> (s2, Fetch req # fx)))"

section \<open>What the view shows\<close>

text \<open>Line 145: \<^verbatim>\<open>showSuccess && googleSheetUrl && (..)\<close>.\<close>

definition successDisplayed :: "app_state \<Rightarrow> bool" where
  "successDisplayed s \<longleftrightarrow> showSuccess s \<and> truthy_string (googleSheetUrl s)"

text \<open>Line 278: \<^verbatim>\<open>disabled={isSubmitting}\<close>.\<close>

definition submitDisabled :: "app_state \<Rightarrow> bool" where
  "submitDisabled s \<longleftrightarrow> isSubmitting s"

text \<open>For example line 228: \<^verbatim>\<open>errors.location && (..)\<close>.\<close>

definition errorShown :: "app_state \<Rightarrow> field \<Rightarrow> bool" where
  "errorShown s f \<longleftrightarrow> truthy_error (errors s f)"

text \<open>
  The states the component can be in: every handler may run in every state, and the
  continuation of a submission may run after any number of other events.
\<close>

inductive reachable :: "app_state \<Rightarrow> bool" where
  initial: "reachable initial_state"
| searchTerms: "reachable s \<Longrightarrow> reachable (searchTermsOnChange v s)"
| location: "reachable s \<Longrightarrow> reachable (locationOnChange v s)"
| numberOfPlaces: "reachable s \<Longrightarrow> reachable (numberOfPlacesOnChange v s)"
| submit: "reachable s \<Longrightarrow> reachable (fst (submitStart now s))"
| settled: "reachable s \<Longrightarrow> reachable (fst (settle outcome s))"

section \<open>Notions used to state the properties\<close>

text \<open>The message \<^verbatim>\<open>validateForm\<close> records for a field.\<close>

fun validationMessage :: "field \<Rightarrow> jsstring" where
  "validationMessage SearchTerms = js ''Search terms are required''"
| "validationMessage Location = js ''Location is required''"
| "validationMessage NumberOfPlaces = js ''Number must be between 1 and 100''"

text \<open>
  \<open>m\<close> is the first match of the pattern in \<open>s\<close>: it stands at the least index where the
  pattern occurs, and it is the longest match there.
\<close>

definition first_match :: "jsstring \<Rightarrow> jsstring \<Rightarrow> bool" where
  "first_match s m \<longleftrightarrow>
     (\<exists>k post. k \<le> length s \<and> drop k s = m @ post \<and> is_sheet_url m \<and>
        (post = [] \<or> \<not> isIdChar (hd post)) \<and> (\<forall>j < k. \<not> occurs_at s j))"

text \<open>The test that \<^verbatim>\<open>validateForm\<close> applies to a field (lines 46, 50 and 54).\<close>

fun rejects :: "FormData \<Rightarrow> field \<Rightarrow> bool" where
  "rejects d SearchTerms \<longleftrightarrow> trim (searchTerms d) = []"
| "rejects d Location \<longleftrightarrow> trim (location d) = []"
| "rejects d NumberOfPlaces \<longleftrightarrow>
     numberLess (numberOfPlaces d) (Double 1) \<or> numberLess (Double 100) (numberOfPlaces d)"

text \<open>The form passes validation, as the contract of the specification words it.\<close>

definition valid :: "FormData \<Rightarrow> bool" where
  "valid d \<longleftrightarrow> \<not> fails d SearchTerms \<and> \<not> fails d Location \<and> \<not> fails d NumberOfPlaces"

text \<open>A form that passes validation, for the examples.\<close>

definition filledForm :: app_state where
  "filledForm = initial_state\<lparr>formData :=
     \<lparr>searchTerms = js ''coffee shops'', location = js ''Lyon'', numberOfPlaces = Double 10\<rparr>\<rparr>"

text \<open>The response of the first example of the specification.\<close>

definition sheetResponse :: response where
  \<open>sheetResponse =
     \<lparr> status = 200,
       textResult = Fulfilled
         (js ''[{"Set Webhook Information": "link: https://docs.google.com/spreadsheets/d/ABC123"}]'') \<rparr>\<close>

text \<open>The response of the second example of the specification.\<close>

definition plainTextResponse :: response where
  "plainTextResponse =
     \<lparr> status = 200,
       textResult = Fulfilled (js ''see https://docs.google.com/spreadsheets/d/XYZ789 for results'') \<rparr>"

text \<open>A state with two errors shown and the success panel shown, for the examples.\<close>

definition twoErrorsShown :: app_state where
  "twoErrorsShown =
     \<lparr> formData = \<lparr> searchTerms = [], location = [], numberOfPlaces = Double 10 \<rparr>,
       errors = [SearchTerms \<mapsto> js ''Search terms are required'',
                 Location \<mapsto> js ''Location is required''],
       isSubmitting = False,
       googleSheetUrl = js ''https://docs.google.com/spreadsheets/d/ABC123'',
       showSuccess = True \<rparr>"

text \<open>
  The state after the form was filled in, submitted and answered with the first example.
\<close>

definition afterSheetResponse :: app_state where
  "afterSheetResponse =
     fst (settle (Fulfilled sheetResponse)
       (fst (submitStart (js ''2024-01-01T00:00:00.000Z'')
         (locationOnChange (js ''Lyon'') (searchTermsOnChange (js ''coffee shops'') initial_state)))))"

text \<open>A response that is valid JSON, without the field, with a URL elsewhere.\<close>

definition otherFieldResponse :: response where
  \<open>otherFieldResponse =
     \<lparr> status = 200,
       textResult = Fulfilled (js ''[{"link": "https://docs.google.com/spreadsheets/d/ABC123"}]'') \<rparr>\<close>

text \<open>
  The awaited promises of an attempt settle: the request is rejected, or it is fulfilled
  and either the status is no success (the body is not read) or the reading of the body
  is fulfilled or rejected.
\<close>

definition settles :: "response promise \<Rightarrow> bool" where
  "settles outcome \<longleftrightarrow>
     (case outcome of
        Pending \<Rightarrow> False
      | Rejected e \<Rightarrow> True
      | Fulfilled r \<Rightarrow> \<not> ok r \<or> textResult r \<noteq> Pending)"

text \<open>
  A value of the number input, a valid floating-point number (it is 1): a 1 with 309
  zeros, then the exponent -309.
\<close>

definition hugeInput :: jsstring where
  "hugeInput = js ''1000000000000000000000000000000000000000000000000000000000000000000000000000000000000000000000000000000000000000000000000000000000000000000000000000000000000000000000000000000000000000000000000000000000000000000000000000000000000000000000000000000000000000000000000000000000000000000000000000000000000000000000e-309''"

definition hugeDigits :: jsstring where
  "hugeDigits = js ''1000000000000000000000000000000000000000000000000000000000000000000000000000000000000000000000000000000000000000000000000000000000000000000000000000000000000000000000000000000000000000000000000000000000000000000000000000000000000000000000000000000000000000000000000000000000000000000000000000000000000000000000''"

text \<open>A request that stays pending, and a response whose body never arrives.\<close>

definition pendingRequest :: "request \<Rightarrow> response promise" where
  "pendingRequest q = Pending"

definition pendingBody :: "request \<Rightarrow> response promise" where
  "pendingBody q = Fulfilled \<lparr>status = 200, textResult = Pending\<rparr>"

section \<open>Validation\<close>

lemma trim_empty_iff: "trim s = [] \<longleftrightarrow> (\<forall>c \<in> set s. isWhiteSpace c)"
proof
  assume "trim s = []"
  then have "dropWhile isWhiteSpace (rev (dropWhile isWhiteSpace s)) = []"
    by (simp add: trim_def)
  then have "\<forall>c \<in> set (dropWhile isWhiteSpace s). isWhiteSpace c"
    by simp
  moreover have "dropWhile isWhiteSpace s = [] \<or> \<not> isWhiteSpace (hd (dropWhile isWhiteSpace s))"
    using hd_dropWhile by blast
  ultimately have "dropWhile isWhiteSpace s = []"
    by (metis hd_in_set)
  then show "\<forall>c \<in> set s. isWhiteSpace c"
    by simp
next
  assume "\<forall>c \<in> set s. isWhiteSpace c"
  then have "dropWhile isWhiteSpace s = []"
    by simp
  then show "trim s = []"
    unfolding trim_def by (simp only: rev.simps dropWhile.simps)
qed

lemma rejects_imp_fails: "rejects d f \<Longrightarrow> fails d f"
  by (cases f) (auto simp: inIntegerRange_def)

lemma rejects_fails:
  assumes "integerOrInfinite (numberOfPlaces d)"
  shows "rejects d f \<longleftrightarrow> fails d f"
proof (cases f)
  case NumberOfPlaces
  show ?thesis
  proof (cases "numberOfPlaces d")
    case NotANumber
    with assms show ?thesis by (simp add: integerOrInfinite_def isInteger_def)
  next
    case PlusInfinity
    with NumberOfPlaces show ?thesis by (simp add: inIntegerRange_def)
  next
    case MinusInfinity
    with NumberOfPlaces show ?thesis by (simp add: inIntegerRange_def)
  next
    case (Double v)
    with assms have "isInteger (Double v)" by (simp add: integerOrInfinite_def)
    with NumberOfPlaces Double show ?thesis by (simp add: inIntegerRange_def)
  qed
qed simp_all

lemma validateForm_errors_eq:
  "errors (fst (validateForm s)) f =
     (if rejects (formData s) f
      then Some (validationMessage f) else None)"
  by (cases f) (auto simp: validateForm_def Let_def truthy_string_def)

lemma validateForm_frame:
  "formData (fst (validateForm s)) = formData s \<and>
   isSubmitting (fst (validateForm s)) = isSubmitting s \<and>
   googleSheetUrl (fst (validateForm s)) = googleSheetUrl s \<and>
   showSuccess (fst (validateForm s)) = showSuccess s"
  by (simp add: validateForm_def Let_def)

lemma validateForm_ok_iff:
  "snd (validateForm s) \<longleftrightarrow> (\<forall>f. \<not> rejects (formData s) f)"
proof -
  have "snd (validateForm s) \<longleftrightarrow>
        \<not> rejects (formData s) SearchTerms \<and> \<not> rejects (formData s) Location \<and>
        \<not> rejects (formData s) NumberOfPlaces"
    by (auto simp: validateForm_def Let_def keys_def truthy_string_def)
  also have "\<dots> \<longleftrightarrow> (\<forall>f. \<not> rejects (formData s) f)"
    by (metis field.exhaust)
  finally show ?thesis .
qed

section \<open>The pattern finds the leftmost occurrence\<close>

lemma is_sheet_url_iff:
  "is_sheet_url u \<longleftrightarrow> (\<exists>ident. u = sheetPrefix @ ident \<and> ident \<noteq> [] \<and> (\<forall>c \<in> set ident. isIdChar c))"
proof
  assume "is_sheet_url u"
  then have "u = sheetPrefix @ drop (length sheetPrefix) u \<and> drop (length sheetPrefix) u \<noteq> [] \<and>
     (\<forall>c \<in> set (drop (length sheetPrefix) u). isIdChar c)"
    unfolding is_sheet_url_def list_all_iff by (metis append_take_drop_id)
  then show "\<exists>ident. u = sheetPrefix @ ident \<and> ident \<noteq> [] \<and> (\<forall>c \<in> set ident. isIdChar c)"
    by blast
next
  assume "\<exists>ident. u = sheetPrefix @ ident \<and> ident \<noteq> [] \<and> (\<forall>c \<in> set ident. isIdChar c)"
  then show "is_sheet_url u"
    by (auto simp: is_sheet_url_def list_all_iff)
qed

lemma match_here_Some_iff:
  "match_here s = Some m \<longleftrightarrow>
     (\<exists>post. s = m @ post \<and> is_sheet_url m \<and> (post = [] \<or> \<not> isIdChar (hd post)))"
proof
  assume a: "match_here s = Some m"
  define n where "n = length sheetPrefix"
  define ident where "ident = takeWhile isIdChar (drop n s)"
  from a have p: "take n s = sheetPrefix" and i: "ident \<noteq> []" and m: "m = sheetPrefix @ ident"
    by (auto simp: match_here_def Let_def n_def ident_def split: if_splits)
  let ?post = "dropWhile isIdChar (drop n s)"
  have "s = take n s @ drop n s" by simp
  also have "drop n s = ident @ ?post" by (simp add: ident_def)
  finally have s: "s = m @ ?post" using p m by simp
  have "is_sheet_url m"
    unfolding is_sheet_url_iff using m i by (auto simp: ident_def dest: set_takeWhileD)
  moreover have "?post = [] \<or> \<not> isIdChar (hd ?post)"
    using hd_dropWhile by blast
  ultimately show "\<exists>post. s = m @ post \<and> is_sheet_url m \<and> (post = [] \<or> \<not> isIdChar (hd post))"
    using s by blast
next
  assume "\<exists>post. s = m @ post \<and> is_sheet_url m \<and> (post = [] \<or> \<not> isIdChar (hd post))"
  then obtain post ident where s: "s = m @ post" and m: "m = sheetPrefix @ ident"
    and i: "ident \<noteq> []" and c: "\<forall>c \<in> set ident. isIdChar c"
    and e: "post = [] \<or> \<not> isIdChar (hd post)"
    unfolding is_sheet_url_iff by blast
  have "takeWhile isIdChar (ident @ post) = ident"
  proof (cases post)
    case Nil
    then show ?thesis using c by simp
  next
    case (Cons x xs)
    then show ?thesis using c e by simp
  qed
  then show "match_here s = Some m"
    using s m i by (simp add: match_here_def Let_def)
qed

lemma match_here_None_iff:
  "match_here s = None \<longleftrightarrow> \<not> occurs_at s 0"
proof -
  have "occurs_at s 0 \<longleftrightarrow> (\<exists>ident post. s = sheetPrefix @ ident @ post \<and> ident \<noteq> [] \<and> (\<forall>c \<in> set ident. isIdChar c))"
  proof
    assume "occurs_at s 0"
    then obtain ident where "take (length (sheetPrefix @ ident)) s = sheetPrefix @ ident"
      and "ident \<noteq> []" and "\<forall>c \<in> set ident. isIdChar c"
      unfolding occurs_at_def is_sheet_url_iff by auto
    then show "\<exists>ident post. s = sheetPrefix @ ident @ post \<and> ident \<noteq> [] \<and> (\<forall>c \<in> set ident. isIdChar c)"
      by (metis append.assoc append_take_drop_id)
  next
    assume "\<exists>ident post. s = sheetPrefix @ ident @ post \<and> ident \<noteq> [] \<and> (\<forall>c \<in> set ident. isIdChar c)"
    then obtain ident post where "s = (sheetPrefix @ ident) @ post" and "ident \<noteq> []"
      and "\<forall>c \<in> set ident. isIdChar c" by auto
    then show "occurs_at s 0"
      unfolding occurs_at_def is_sheet_url_iff by (intro exI [of _ "sheetPrefix @ ident"]) auto
  qed
  also have "\<dots> \<longleftrightarrow> take (length sheetPrefix) s = sheetPrefix \<and> takeWhile isIdChar (drop (length sheetPrefix) s) \<noteq> []"
  proof
    assume "\<exists>ident post. s = sheetPrefix @ ident @ post \<and> ident \<noteq> [] \<and> (\<forall>c \<in> set ident. isIdChar c)"
    then obtain ident post where s: "s = sheetPrefix @ ident @ post" and i: "ident \<noteq> []"
      and c: "\<forall>c \<in> set ident. isIdChar c" by blast
    from i c have "isIdChar (hd ident)" by simp
    with i s show "take (length sheetPrefix) s = sheetPrefix \<and> takeWhile isIdChar (drop (length sheetPrefix) s) \<noteq> []"
      by (cases ident) auto
  next
    assume a: "take (length sheetPrefix) s = sheetPrefix \<and> takeWhile isIdChar (drop (length sheetPrefix) s) \<noteq> []"
    let ?d = "drop (length sheetPrefix) s"
    have "s = sheetPrefix @ takeWhile isIdChar ?d @ dropWhile isIdChar ?d"
      using a by (metis append_take_drop_id takeWhile_dropWhile_id)
    then show "\<exists>ident post. s = sheetPrefix @ ident @ post \<and> ident \<noteq> [] \<and> (\<forall>c \<in> set ident. isIdChar c)"
      using a by (metis set_takeWhileD)
  qed
  finally show ?thesis
    by (auto simp: match_here_def Let_def)
qed

lemma occurs_at_Suc: "occurs_at (c # cs) (Suc i) = occurs_at cs i"
  by (simp add: occurs_at_def)

lemma sheetUrlMatch_None_iff: "sheetUrlMatch s = None \<longleftrightarrow> (\<forall>i. \<not> occurs_at s i)"
proof (induction s)
  case Nil
  have "\<not> is_sheet_url []" by (simp add: is_sheet_url_def)
  then show ?case by (auto simp: occurs_at_def)
next
  case (Cons c cs)
  have "(\<forall>i. \<not> occurs_at (c # cs) i) \<longleftrightarrow> \<not> occurs_at (c # cs) 0 \<and> (\<forall>i. \<not> occurs_at cs i)"
    by (metis occurs_at_Suc not0_implies_Suc)
  then show ?case
    using Cons.IH match_here_None_iff [of "c # cs"] by (auto split: option.splits)
qed

lemma sheetUrlMatch_Some_iff:
  "sheetUrlMatch s = Some m \<longleftrightarrow>
     (\<exists>i. i \<le> length s \<and> match_here (drop i s) = Some m \<and> (\<forall>j < i. \<not> occurs_at s j))"
proof (induction s)
  case Nil
  have "match_here [] = None" by (simp add: match_here_def Let_def sheetPrefix_def js_def)
  then show ?case by simp
next
  case (Cons c cs)
  show ?case
  proof (cases "match_here (c # cs)")
    case None
    then have n0: "\<not> occurs_at (c # cs) 0" by (simp add: match_here_None_iff)
    have "(\<exists>i. i \<le> length (c # cs) \<and> match_here (drop i (c # cs)) = Some m \<and> (\<forall>j < i. \<not> occurs_at (c # cs) j))
      \<longleftrightarrow> (\<exists>i. i \<le> length cs \<and> match_here (drop i cs) = Some m \<and> (\<forall>j < i. \<not> occurs_at cs j))"
      (is "?L \<longleftrightarrow> ?R")
    proof
      assume ?L
      then obtain i where i: "i \<le> length (c # cs)" "match_here (drop i (c # cs)) = Some m"
        "\<forall>j < i. \<not> occurs_at (c # cs) j" by blast
      with None obtain k where k: "i = Suc k" by (cases i) auto
      have "\<forall>j < k. \<not> occurs_at cs j" using i(3) k occurs_at_Suc by (metis Suc_less_eq)
      with i k show ?R by auto
    next
      assume ?R
      then obtain i where i: "i \<le> length cs" "match_here (drop i cs) = Some m"
        "\<forall>j < i. \<not> occurs_at cs j" by blast
      have "\<forall>j < Suc i. \<not> occurs_at (c # cs) j"
      proof (intro allI impI)
        fix j assume "j < Suc i"
        then show "\<not> occurs_at (c # cs) j" using n0 i(3) by (cases j) (auto simp: occurs_at_Suc)
      qed
      with i show ?L by (intro exI [of _ "Suc i"]) simp
    qed
    with None Cons.IH show ?thesis by simp
  next
    case (Some m')
    then have o0: "occurs_at (c # cs) 0" using match_here_None_iff [of "c # cs"] by simp
    have "(\<exists>i. i \<le> length (c # cs) \<and> match_here (drop i (c # cs)) = Some m \<and> (\<forall>j < i. \<not> occurs_at (c # cs) j))
      \<longleftrightarrow> m' = m"
    proof
      assume "\<exists>i. i \<le> length (c # cs) \<and> match_here (drop i (c # cs)) = Some m \<and> (\<forall>j < i. \<not> occurs_at (c # cs) j)"
      then obtain i where i: "match_here (drop i (c # cs)) = Some m" "\<forall>j < i. \<not> occurs_at (c # cs) j" by blast
      with o0 have "i = 0" by (cases i) auto
      with i Some show "m' = m" by simp
    next
      assume "m' = m"
      with Some show "\<exists>i. i \<le> length (c # cs) \<and> match_here (drop i (c # cs)) = Some m \<and> (\<forall>j < i. \<not> occurs_at (c # cs) j)"
        by (intro exI [of _ 0]) simp
    qed
    with Some show ?thesis by simp
  qed
qed

section \<open>The parts of a submission\<close>

lemma valid_iff: "valid d \<longleftrightarrow> (\<forall>f. \<not> fails d f)"
  unfolding valid_def by (metis field.exhaust)

lemma valid_not_rejects: "valid d \<Longrightarrow> \<not> rejects d f"
  using rejects_imp_fails by (auto simp: valid_iff)

lemma validateForm_state:
  "fst (validateForm s) =
     s\<lparr>errors := (\<lambda>f. if rejects (formData s) f then Some (validationMessage f) else None)\<rparr>"
proof -
  have "fst (validateForm s) = s\<lparr>errors := errors (fst (validateForm s))\<rparr>"
    by (simp add: validateForm_def Let_def)
  moreover have "errors (fst (validateForm s)) =
      (\<lambda>f. if rejects (formData s) f then Some (validationMessage f) else None)"
    by (rule ext) (rule validateForm_errors_eq)
  ultimately show ?thesis by simp
qed

lemma submitStart_rejected:
  assumes "rejects (formData s) f"
  shows "submitStart now s =
     (s\<lparr>errors := (\<lambda>f. if rejects (formData s) f then Some (validationMessage f) else None)\<rparr>, None)"
proof -
  obtain s1 b where vf: "validateForm s = (s1, b)"
    by (cases "validateForm s")
  from assms have "\<not> snd (validateForm s)"
    by (auto simp: validateForm_ok_iff)
  with vf validateForm_state [of s]
  have "s1 = s\<lparr>errors := (\<lambda>f. if rejects (formData s) f then Some (validationMessage f) else None)\<rparr>"
    and "\<not> b" by simp_all
  with vf show ?thesis by (simp add: submitStart_def)
qed

lemma submitStart_accepted:
  assumes "\<forall>f. \<not> rejects (formData s) f"
  shows "submitStart now s =
     (s\<lparr>errors := Map.empty, isSubmitting := True, showSuccess := False, googleSheetUrl := []\<rparr>,
      Some (makeRequest now (formData s)))"
proof -
  obtain s1 b where vf: "validateForm s = (s1, b)"
    by (cases "validateForm s")
  from assms have "(\<lambda>f. if rejects (formData s) f then Some (validationMessage f) else None) = Map.empty"
    by auto
  moreover from assms have "snd (validateForm s)"
    by (simp add: validateForm_ok_iff)
  ultimately have "s1 = s\<lparr>errors := Map.empty\<rparr>" and "b"
    using vf validateForm_state [of s] by simp_all
  with vf show ?thesis by (simp add: submitStart_def)
qed

lemma submitStart_valid:
  assumes "valid (formData s)"
  shows "submitStart now s =
     (s\<lparr>errors := Map.empty, isSubmitting := True, showSuccess := False, googleSheetUrl := []\<rparr>,
      Some (makeRequest now (formData s)))"
  using assms by (intro submitStart_accepted) (simp add: valid_not_rejects)

lemma sheetUrlMatch_first_match: "sheetUrlMatch s = Some m \<longleftrightarrow> first_match s m"
  unfolding sheetUrlMatch_Some_iff first_match_def match_here_Some_iff by blast

lemma sheetUrlMatch_is_sheet_url: "sheetUrlMatch s = Some m \<Longrightarrow> is_sheet_url m"
  by (auto simp: sheetUrlMatch_first_match first_match_def)

lemma sheetUrlMatch_Some_if_occurs: "occurs_at s i \<Longrightarrow> \<exists>m. sheetUrlMatch s = Some m"
  using sheetUrlMatch_None_iff [of s] by (cases "sheetUrlMatch s") auto

lemma tryJson_is_sheet_url: "tryJson t = Inr m \<Longrightarrow> is_sheet_url m"
  by (auto simp: tryJson_def matchWebhookInfo_def
      split: option.splits sum.splits bool.splits json.splits
      dest: sheetUrlMatch_is_sheet_url)

lemma extractUrl_is_sheet_url: "extractUrl t = Inr m \<Longrightarrow> is_sheet_url m"
  by (auto simp: extractUrl_def split: sum.splits option.splits
      dest: sheetUrlMatch_is_sheet_url tryJson_is_sheet_url)

lemma interpretResponse_is_sheet_url:
  "interpretResponse out = Some (fx, Inr m) \<Longrightarrow> is_sheet_url m"
  by (auto simp: interpretResponse_def split: promise.splits if_splits
      dest: extractUrl_is_sheet_url)

lemma tryJson_field:
  assumes "JSON_parse t = Some (JArray (JObject ms # rest))"
    and "ownProperty ms sheetKey = Some (JString info)"
    and "sheetUrlMatch info = Some m"
  shows "tryJson t = Inr m"
proof -
  from assms(3) have "info \<noteq> []" by (cases info) auto
  with assms show ?thesis
    by (simp add: tryJson_def hasWebhookInformation_def lengthOf_def greaterThanZero_def
        elementZero_def webhookInformation_def matchWebhookInfo_def sheetKey_def
        roundsToZero_def)
qed

lemma settle_success:
  assumes "ok r" and "textResult r = Fulfilled t" and "extractUrl t = Inr m"
  shows "settle (Fulfilled r) s =
     (s\<lparr>googleSheetUrl := m, showSuccess := True, isSubmitting := False\<rparr>,
      [ConsoleLog (js ''Webhook response:'') t])"
  using assms by (simp add: settle_def interpretResponse_def)

lemma settle_no_url:
  assumes "ok r" and "textResult r = Fulfilled t" and "extractUrl t = Inl e"
  shows "settle (Fulfilled r) s =
     (s\<lparr>isSubmitting := False\<rparr>,
      [ConsoleLog (js ''Webhook response:'') t,
       ConsoleError (js ''Error submitting form:'') e,
       Alert (js ''Error submitting form: '' @ errorMessage e)])"
  using assms by (simp add: settle_def interpretResponse_def)

lemma settle_http_error:
  assumes "\<not> ok r"
  shows "settle (Fulfilled r) s =
     (s\<lparr>isSubmitting := False\<rparr>,
      [ConsoleError (js ''Error submitting form:'')
         (ErrorInstance (js ''HTTP error! status: '' @ decimal (status r))),
       Alert (js ''Error submitting form: HTTP error! status: '' @ decimal (status r))])"
  using assms by (simp add: settle_def interpretResponse_def errorMessage_def js_def)

lemma settles_iff: "settles outcome \<longleftrightarrow> interpretResponse outcome \<noteq> None"
  by (auto simp: settles_def interpretResponse_def split: promise.splits)

lemma settle_isSubmitting: "settles outcome \<Longrightarrow> \<not> isSubmitting (fst (settle outcome s))"
  by (auto simp: settles_iff settle_def split: prod.splits sum.splits)

lemma settle_pending: "\<not> settles outcome \<Longrightarrow> settle outcome s = (s, [])"
  by (cases "interpretResponse outcome") (simp_all add: settles_iff settle_def)

lemma handleSubmit_valid:
  assumes "valid (formData s)"
  shows "handleSubmit now fetch s =
     (fst (settle (fetch (makeRequest now (formData s)))
        (s\<lparr>errors := Map.empty, isSubmitting := True, showSuccess := False, googleSheetUrl := []\<rparr>)),
      Fetch (makeRequest now (formData s)) #
      snd (settle (fetch (makeRequest now (formData s)))
        (s\<lparr>errors := Map.empty, isSubmitting := True, showSuccess := False, googleSheetUrl := []\<rparr>)))"
  using submitStart_valid [OF assms, of now]
  by (simp add: handleSubmit_def split: prod.splits)

lemma handleSubmit_rejected:
  assumes "rejects (formData s) f"
  shows "handleSubmit now fetch s =
     (s\<lparr>errors := (\<lambda>f. if rejects (formData s) f then Some (validationMessage f) else None)\<rparr>, [])"
  using submitStart_rejected [OF assms, of now]
  by (simp add: handleSubmit_def)

lemma handleSubmit_invalid:
  assumes "fails (formData s) f" and "integerOrInfinite (numberOfPlaces (formData s))"
  shows "handleSubmit now fetch s =
     (s\<lparr>errors := (\<lambda>f. if fails (formData s) f then Some (validationMessage f) else None)\<rparr>, [])"
proof -
  from assms have "rejects (formData s) f" by (simp add: rejects_fails)
  then have "handleSubmit now fetch s =
     (s\<lparr>errors := (\<lambda>f. if rejects (formData s) f then Some (validationMessage f) else None)\<rparr>, [])"
    by (rule handleSubmit_rejected)
  then show ?thesis using assms(2) by (simp add: rejects_fails)
qed

lemma filledForm_valid: "valid (formData filledForm)"
  by (simp add: filledForm_def initial_state_def valid_def trim_def js_def isWhiteSpace_def
      inIntegerRange_def isInteger_def)

section \<open>The example bodies\<close>

lemma parse_sheet_body:
  \<open>JSON_parse (js ''[{"Set Webhook Information": "link: https://docs.google.com/spreadsheets/d/ABC123"}]'') =
    Some (JArray [JObject [(js ''Set Webhook Information'',
                            JString (js ''link: https://docs.google.com/spreadsheets/d/ABC123''))]])\<close>
  by code_simp

lemma match_sheet_info:
  "sheetUrlMatch (js ''link: https://docs.google.com/spreadsheets/d/ABC123'') =
     Some (js ''https://docs.google.com/spreadsheets/d/ABC123'')"
  by code_simp

lemma occurs_sheet_info: "occurs_at (js ''link: https://docs.google.com/spreadsheets/d/ABC123'') 6"
  unfolding occurs_at_def
  by (rule exI [of _ "js ''https://docs.google.com/spreadsheets/d/ABC123''"]) code_simp

lemma parse_plain_body:
  "JSON_parse (js ''see https://docs.google.com/spreadsheets/d/XYZ789 for results'') = None"
  by code_simp

lemma match_plain_body:
  "sheetUrlMatch (js ''see https://docs.google.com/spreadsheets/d/XYZ789 for results'') =
     Some (js ''https://docs.google.com/spreadsheets/d/XYZ789'')"
  by code_simp

section \<open>The captured URL\<close>

lemma handleInputChange_keeps:
  assumes "showSuccess s \<longrightarrow> is_sheet_url (googleSheetUrl s)"
  shows "showSuccess (handleInputChange ch s) \<longrightarrow> is_sheet_url (googleSheetUrl (handleInputChange ch s))"
  using assms by (simp add: handleInputChange_def Let_def)

lemma submitStart_keeps:
  assumes "showSuccess s \<longrightarrow> is_sheet_url (googleSheetUrl s)"
  shows "showSuccess (fst (submitStart now s)) \<longrightarrow> is_sheet_url (googleSheetUrl (fst (submitStart now s)))"
proof (cases "\<forall>f. \<not> rejects (formData s) f")
  case True
  then show ?thesis by (simp add: submitStart_accepted)
next
  case False
  then obtain f where "rejects (formData s) f" by blast
  then show ?thesis using assms by (simp add: submitStart_rejected)
qed

lemma settle_keeps:
  assumes "showSuccess s \<longrightarrow> is_sheet_url (googleSheetUrl s)"
  shows "showSuccess (fst (settle outcome s)) \<longrightarrow> is_sheet_url (googleSheetUrl (fst (settle outcome s)))"
proof (cases "interpretResponse outcome")
  case None
  with assms show ?thesis by (simp add: settle_def)
next
  case (Some p)
  obtain fx res where p: "p = (fx, res)" by (cases p)
  show ?thesis
  proof (cases res)
    case (Inl e)
    with Some p assms show ?thesis by (simp add: settle_def)
  next
    case (Inr m)
    with Some p have "is_sheet_url m" by (auto dest: interpretResponse_is_sheet_url)
    with Some p Inr show ?thesis by (simp add: settle_def)
  qed
qed

lemma reachable_url: "reachable s \<Longrightarrow> showSuccess s \<longrightarrow> is_sheet_url (googleSheetUrl s)"
proof (induction rule: reachable.induct)
  case initial
  show ?case by (simp add: initial_state_def)
next
  case (searchTerms s v)
  from searchTerms.IH show ?case unfolding searchTermsOnChange_def by (rule handleInputChange_keeps)
next
  case (location s v)
  from location.IH show ?case unfolding locationOnChange_def by (rule handleInputChange_keeps)
next
  case (numberOfPlaces s v)
  from numberOfPlaces.IH show ?case unfolding numberOfPlacesOnChange_def by (rule handleInputChange_keeps)
next
  case (submit s now)
  from submit.IH show ?case by (rule submitStart_keeps)
next
  case (settled s outcome)
  from settled.IH show ?case by (rule settle_keeps)
qed

lemma is_sheet_url_shape:
  assumes "is_sheet_url u"
  shows "u \<noteq> [] \<and> (\<exists>c rest. u = sheetPrefix @ c # rest \<and> isIdChar c \<and> (\<forall>d \<in> set rest. isIdChar d))"
proof -
  from assms obtain ident where u: "u = sheetPrefix @ ident" and i: "ident \<noteq> []"
    and c: "\<forall>c \<in> set ident. isIdChar c"
    unfolding is_sheet_url_iff by blast
  from i obtain c rest where "ident = c # rest" by (cases ident) auto
  with u c show ?thesis by auto
qed

lemma afterSheetResponse_url:
  "googleSheetUrl afterSheetResponse = js ''https://docs.google.com/spreadsheets/d/ABC123'' \<and>
   showSuccess afterSheetResponse"
proof -
  have "extractUrl (js ''[{\"Set Webhook Information\": \"link: https://docs.google.com/spreadsheets/d/ABC123\"}]'') =
      Inr (js ''https://docs.google.com/spreadsheets/d/ABC123'')"
    using tryJson_field [OF parse_sheet_body _ match_sheet_info]
    by (simp add: extractUrl_def ownProperty_def sheetKey_def)
  then show ?thesis
    by (simp add: afterSheetResponse_def settle_success ok_def sheetResponse_def)
qed

section \<open>The numbers that parseInt gives\<close>

lemma roundToDouble_small: "n < 2 ^ 53 \<Longrightarrow> roundToDouble n = Some n"
proof -
  assume a: "n < 2 ^ 53"
  then have "floorlog 2 n \<le> 53" by (simp add: floorlog_le_iff)
  then have e: "floorlog 2 n - 53 = 0" by simp
  have "n < 2 ^ 1024" using a by (rule less_trans) simp
  then show ?thesis by (simp add: roundToDouble_def e Let_def)
qed

lemma roundToDouble_overflow:
  assumes "2 ^ 1024 \<le> n"
  shows "roundToDouble n = None"
proof -
  define k where "k = floorlog 2 n"
  define e where "e = k - 53"
  from assms have n0: "0 < n" by (simp add: order.strict_trans2 [of 0 "2 ^ 1024"])
  from assms have "1025 \<le> k" unfolding k_def by (intro floorlog_geI) simp_all
  then have ke: "k - 1 = 52 + e" by (simp add: e_def)
  have p: "(2::nat) ^ (k - 1) = 2 ^ 52 * 2 ^ e" by (simp only: ke power_add)
  have b: "2 ^ (k - 1) \<le> n" using floorlog_bounds [of n 2] n0 by (simp add: k_def)
  have "2 ^ 52 * 2 ^ e \<le> n" using b unfolding p .
  then have q: "2 ^ 52 \<le> n div 2 ^ e"
    by (simp add: less_eq_div_iff_mult_less_eq)
  have "(2::nat) ^ 1024 \<le> 2 ^ (k - 1)" using \<open>1025 \<le> k\<close> by (intro power_increasing) simp_all
  also have "\<dots> = 2 ^ 52 * 2 ^ e" by (rule p)
  also have "\<dots> \<le> (n div 2 ^ e) * 2 ^ e" using q by simp
  finally have lo: "2 ^ 1024 \<le> (n div 2 ^ e) * 2 ^ e" .
  have "(n div 2 ^ e) * 2 ^ e \<le> (n div 2 ^ e + 1) * 2 ^ e" by simp
  with lo have hi: "2 ^ 1024 \<le> (n div 2 ^ e + 1) * 2 ^ e" by (rule order_trans)
  from lo hi show ?thesis
    unfolding roundToDouble_def Let_def k_def [symmetric] e_def [symmetric] by simp
qed

lemma toDouble_small: "\<bar>i\<bar> < 2 ^ 53 \<Longrightarrow> toDouble i = Double (of_int i)"
proof -
  assume "\<bar>i\<bar> < 2 ^ 53"
  then have "nat \<bar>i\<bar> < 2 ^ 53" by (simp add: nat_less_iff)
  then have "roundToDouble (nat \<bar>i\<bar>) = Some (nat \<bar>i\<bar>)" by (rule roundToDouble_small)
  then show ?thesis by (simp add: toDouble_def)
qed

lemma toDouble_integerOrInfinite: "integerOrInfinite (toDouble i)"
  by (simp add: toDouble_def integerOrInfinite_def isInteger_def split: option.splits)

lemma parseInt_cases: "parseInt v = NotANumber \<or> (\<exists>i. parseInt v = toDouble i)"
  by (auto simp: parseInt_def Let_def split: if_splits)

lemma parseIntOrZero_eq:
  "parseIntOrZero v = (if parseInt v = NotANumber then Double 0 else parseInt v)"
  by (cases "parseInt v") (simp_all add: parseIntOrZero_def truthyNumber_def)

lemma parseIntOrZero_integerOrInfinite: "integerOrInfinite (parseIntOrZero v)"
proof (cases "parseInt v = NotANumber")
  case True
  then show ?thesis by (simp add: parseIntOrZero_eq integerOrInfinite_def isInteger_def)
next
  case False
  with parseInt_cases [of v] obtain i where "parseInt v = toDouble i" by blast
  with False show ?thesis by (simp add: parseIntOrZero_eq toDouble_integerOrInfinite)
qed

lemma parseIntOrZero_not_NaN: "parseIntOrZero v \<noteq> NotANumber"
  by (simp add: parseIntOrZero_eq)

lemma numberOfPlacesOnChange_stored:
  "numberOfPlaces (formData (numberOfPlacesOnChange v s)) = parseIntOrZero v"
  by (simp add: numberOfPlacesOnChange_def handleInputChange_def Let_def)

lemma infinite_fails:
  "n = PlusInfinity \<or> n = MinusInfinity \<Longrightarrow> fails (d\<lparr>numberOfPlaces := n\<rparr>) NumberOfPlaces"
  by (auto simp: inIntegerRange_def)

lemma round_2_53_plus_1: "roundToDouble 9007199254740993 = Some 9007199254740992"
proof -
  have "floorlog 2 9007199254740993 \<le> 54" by (simp add: floorlog_le_iff)
  moreover have "54 \<le> floorlog 2 9007199254740993" by (intro floorlog_geI) simp_all
  ultimately have "floorlog 2 9007199254740993 = 54" by simp
  then show ?thesis by (simp add: roundToDouble_def Let_def)
qed

lemma parseInt_rounds: "parseInt (js ''9007199254740993'') = Double 9007199254740992"
  by (simp add: parseInt_def trimStart_def isWhiteSpace_def js_def isRadixDigit_def digitValue_def
      digitsValue_def Let_def toDouble_def round_2_53_plus_1)

lemma parseInt_text: "parseInt (js ''abc'') = NotANumber"
  by (simp add: parseInt_def trimStart_def isWhiteSpace_def js_def isRadixDigit_def digitValue_def
      Let_def)

lemma parseInt_empty: "parseInt [] = NotANumber"
  by (simp add: parseInt_def trimStart_def Let_def js_def)

lemma parseInt_42: "parseInt (js ''42'') = Double 42"
  by (simp add: parseInt_def trimStart_def isWhiteSpace_def js_def isRadixDigit_def digitValue_def
      digitsValue_def Let_def toDouble_small)

lemma parseInt_fraction: "parseInt (js ''1.5'') = Double 1"
  by (simp add: parseInt_def trimStart_def isWhiteSpace_def js_def isRadixDigit_def digitValue_def
      digitsValue_def Let_def toDouble_small)

lemma huge_digits: "takeWhile (isRadixDigit 10) hugeInput = hugeDigits"
  by (simp add: hugeInput_def hugeDigits_def js_def isRadixDigit_def digitValue_def)

lemma huge_value: "digitsValue 10 hugeDigits = 10 ^ 309"
  by (simp add: hugeDigits_def js_def digitsValue_def digitValue_def)

lemma parseInt_huge: "parseInt hugeInput = PlusInfinity"
proof -
  have "roundToDouble (10 ^ 309) = None" by (rule roundToDouble_overflow) simp
  moreover have "trimStart hugeInput = hugeInput"
    by (simp add: trimStart_def hugeInput_def js_def isWhiteSpace_def)
  moreover have "hd hugeInput = 0x31" "hugeInput \<noteq> []" "take 2 hugeInput = js ''10''"
    by (simp_all add: hugeInput_def js_def)
  moreover have "js ''10'' \<noteq> js ''0x''" "js ''10'' \<noteq> js ''0X''" "hugeDigits \<noteq> []"
    by (simp_all add: js_def hugeDigits_def)
  ultimately show ?thesis
    by (simp add: parseInt_def Let_def huge_digits huge_value toDouble_def)
qed

lemma handleInputChange_number:
  "field_of ch \<noteq> NumberOfPlaces \<Longrightarrow>
   numberOfPlaces (formData (handleInputChange ch s)) = numberOfPlaces (formData s)"
  by (cases ch) (simp_all add: handleInputChange_def Let_def)

lemma submitStart_formData: "formData (fst (submitStart now s)) = formData s"
proof (cases "\<forall>f. \<not> rejects (formData s) f")
  case True
  then show ?thesis by (simp add: submitStart_accepted)
next
  case False
  then obtain f where "rejects (formData s) f" by blast
  then show ?thesis by (simp add: submitStart_rejected)
qed

lemma settle_formData: "formData (fst (settle outcome s)) = formData s"
  by (simp add: settle_def split: option.splits prod.splits sum.splits)

lemma reachable_number: "reachable s \<Longrightarrow> integerOrInfinite (numberOfPlaces (formData s))"
proof (induction rule: reachable.induct)
  case initial
  show ?case by (simp add: initial_state_def integerOrInfinite_def isInteger_def)
next
  case (searchTerms s v)
  from searchTerms.IH show ?case
    by (simp add: searchTermsOnChange_def handleInputChange_number)
next
  case (location s v)
  from location.IH show ?case
    by (simp add: locationOnChange_def handleInputChange_number)
next
  case (numberOfPlaces s v)
  show ?case
    by (simp add: numberOfPlacesOnChange_stored parseIntOrZero_integerOrInfinite)
next
  case (submit s now)
  from submit.IH show ?case by (simp add: submitStart_formData)
next
  case (settled s outcome)
  from settled.IH show ?case by (simp add: settle_formData)
qed

section \<open>The claims\<close>

text \<open>
  Claim C1 says that a body that is valid JSON without the expected field ends the
  attempt in failure whatever the raw text holds. The code does otherwise: the error
  "Invalid response format" is thrown inside the \<^verbatim>\<open>try\<close> whose \<^verbatim>\<open>catch\<close> searches the raw
  text. Here the body is a JSON array whose first element lacks the field; the inner block
  throws, and the attempt still ends with the success panel shown and the URL of the raw
  text captured, with no alert.
\<close>

theorem valid_json_without_field_reaches_text_search:
  \<open>JSON_parse (js ''[{"link": "https://docs.google.com/spreadsheets/d/ABC123"}]'') =
     Some (JArray [JObject [(js ''link'', JString (js ''https://docs.google.com/spreadsheets/d/ABC123''))]]) \<and>
   tryJson (js ''[{"link": "https://docs.google.com/spreadsheets/d/ABC123"}]'') =
     Inl (Error (js ''Invalid response format'')) \<and>
   showSuccess (fst (handleSubmit (js ''2024-01-01T00:00:00.000Z'') (\<lambda>q. Fulfilled otherFieldResponse) filledForm)) \<and>
   googleSheetUrl (fst (handleSubmit (js ''2024-01-01T00:00:00.000Z'') (\<lambda>q. Fulfilled otherFieldResponse) filledForm)) =
     js ''https://docs.google.com/spreadsheets/d/ABC123'' \<and>
   snd (handleSubmit (js ''2024-01-01T00:00:00.000Z'') (\<lambda>q. Fulfilled otherFieldResponse) filledForm) =
     [Fetch (makeRequest (js ''2024-01-01T00:00:00.000Z'') (formData filledForm)),
      ConsoleLog (js ''Webhook response:'') (js ''[{"link": "https://docs.google.com/spreadsheets/d/ABC123"}]'')]\<close>
proof -
  have p: \<open>JSON_parse (js ''[{"link": "https://docs.google.com/spreadsheets/d/ABC123"}]'') =
     Some (JArray [JObject [(js ''link'', JString (js ''https://docs.google.com/spreadsheets/d/ABC123''))]])\<close>
    by code_simp
  have t: \<open>tryJson (js ''[{"link": "https://docs.google.com/spreadsheets/d/ABC123"}]'') =
     Inl (Error (js ''Invalid response format''))\<close>
    by code_simp
  have m: \<open>sheetUrlMatch (js ''[{"link": "https://docs.google.com/spreadsheets/d/ABC123"}]'') =
     Some (js ''https://docs.google.com/spreadsheets/d/ABC123'')\<close>
    by code_simp
  from t m have \<open>extractUrl (js ''[{"link": "https://docs.google.com/spreadsheets/d/ABC123"}]'') =
     Inr (js ''https://docs.google.com/spreadsheets/d/ABC123'')\<close>
    by (simp add: extractUrl_def)
  then show ?thesis
    using p t handleSubmit_valid [OF filledForm_valid, of "js ''2024-01-01T00:00:00.000Z''" "\<lambda>q. Fulfilled otherFieldResponse"]
    by (simp add: settle_success ok_def otherFieldResponse_def)
qed

text \<open>
  Claim C2. For every form state, validation records an error for \<open>searchTerms\<close> exactly
  when its trimmed value is empty, for \<open>location\<close> exactly when its trimmed value is empty,
  and for \<open>numberOfPlaces\<close> exactly when it is outside the integers 1 to 100; the values 1
  and 100 pass, 0 and 101 fail. The number of the form is an integer in the specification
  and a double in the code: the error is recorded exactly when the double is less than 1 or
  greater than 100, which for every integer is to be outside 1 to 100, and which holds for
  the two infinities.
\<close>

theorem validateForm_contract:
  "(errors (fst (validateForm s)) SearchTerms \<noteq> None \<longleftrightarrow> trim (searchTerms (formData s)) = []) \<and>
   (errors (fst (validateForm s)) Location \<noteq> None \<longleftrightarrow> trim (location (formData s)) = []) \<and>
   (errors (fst (validateForm s)) NumberOfPlaces \<noteq> None \<longleftrightarrow>
      numberLess (numberOfPlaces (formData s)) (Double 1) \<or>
      numberLess (Double 100) (numberOfPlaces (formData s))) \<and>
   (\<forall>i. numberOfPlaces (formData s) = Double (of_int i) \<longrightarrow>
      (errors (fst (validateForm s)) NumberOfPlaces \<noteq> None \<longleftrightarrow> \<not> (1 \<le> i \<and> i \<le> 100))) \<and>
   (numberOfPlaces (formData s) = PlusInfinity \<or> numberOfPlaces (formData s) = MinusInfinity \<longrightarrow>
      errors (fst (validateForm s)) NumberOfPlaces \<noteq> None) \<and>
   errors (fst (validateForm (s\<lparr>formData := (formData s)\<lparr>numberOfPlaces := Double 1\<rparr>\<rparr>))) NumberOfPlaces = None \<and>
   errors (fst (validateForm (s\<lparr>formData := (formData s)\<lparr>numberOfPlaces := Double 100\<rparr>\<rparr>))) NumberOfPlaces = None \<and>
   errors (fst (validateForm (s\<lparr>formData := (formData s)\<lparr>numberOfPlaces := Double 0\<rparr>\<rparr>))) NumberOfPlaces \<noteq> None \<and>
   errors (fst (validateForm (s\<lparr>formData := (formData s)\<lparr>numberOfPlaces := Double 101\<rparr>\<rparr>))) NumberOfPlaces \<noteq> None"
proof -
  have "errors (fst (validateForm s)) NumberOfPlaces \<noteq> None \<longleftrightarrow> \<not> (1 \<le> i \<and> i \<le> 100)"
    if "numberOfPlaces (formData s) = Double (of_int i)" for i
    using that by (auto simp: validateForm_errors_eq)
  moreover have "errors (fst (validateForm s)) NumberOfPlaces \<noteq> None"
    if "numberOfPlaces (formData s) = PlusInfinity \<or> numberOfPlaces (formData s) = MinusInfinity"
    using that by (auto simp: validateForm_errors_eq)
  ultimately show ?thesis
    by (simp add: validateForm_errors_eq)
qed

theorem validateForm_contract_witness:
  "numberOfPlaces (formData filledForm) = Double (of_int 10) \<and>
   errors (fst (validateForm filledForm)) NumberOfPlaces = None \<and>
   errors (fst (validateForm
     (filledForm\<lparr>formData := (formData filledForm)\<lparr>numberOfPlaces := Double (of_int 250)\<rparr>\<rparr>))) NumberOfPlaces \<noteq> None \<and>
   errors (fst (validateForm
     (filledForm\<lparr>formData := (formData filledForm)\<lparr>numberOfPlaces := PlusInfinity\<rparr>\<rparr>))) NumberOfPlaces \<noteq> None"
proof -
  let ?big = "filledForm\<lparr>formData := (formData filledForm)\<lparr>numberOfPlaces := Double (of_int 250)\<rparr>\<rparr>"
  let ?inf = "filledForm\<lparr>formData := (formData filledForm)\<lparr>numberOfPlaces := PlusInfinity\<rparr>\<rparr>"
  have a: "numberOfPlaces (formData filledForm) = Double (of_int 10)"
    by (simp add: filledForm_def)
  have b: "numberOfPlaces (formData ?big) = Double (of_int 250)"
    by simp
  have c: "numberOfPlaces (formData ?inf) = PlusInfinity"
    by simp
  note t = validateForm_contract
  from t [of filledForm]
  have "\<forall>i. numberOfPlaces (formData filledForm) = Double (of_int i) \<longrightarrow>
      (errors (fst (validateForm filledForm)) NumberOfPlaces \<noteq> None \<longleftrightarrow> \<not> (1 \<le> i \<and> i \<le> 100))"
    by blast
  with a have "errors (fst (validateForm filledForm)) NumberOfPlaces \<noteq> None \<longleftrightarrow>
      \<not> (1 \<le> (10::int) \<and> (10::int) \<le> 100)"
    by blast
  then have e1: "errors (fst (validateForm filledForm)) NumberOfPlaces = None"
    by simp
  from t [of ?big]
  have "\<forall>i. numberOfPlaces (formData ?big) = Double (of_int i) \<longrightarrow>
      (errors (fst (validateForm ?big)) NumberOfPlaces \<noteq> None \<longleftrightarrow> \<not> (1 \<le> i \<and> i \<le> 100))"
    by blast
  with b have "errors (fst (validateForm ?big)) NumberOfPlaces \<noteq> None \<longleftrightarrow>
      \<not> (1 \<le> (250::int) \<and> (250::int) \<le> 100)"
    by blast
  then have e2: "errors (fst (validateForm ?big)) NumberOfPlaces \<noteq> None"
    by simp
  from t [of ?inf] c have e3: "errors (fst (validateForm ?inf)) NumberOfPlaces \<noteq> None"
    by blast
  from a e1 e2 e3 show ?thesis by blast
qed

text \<open>
  Claim C3. When at least one of the three fields fails validation, a submit attempt has
  no effect on the outside (no request is sent, nothing is logged or alerted), whatever the
  environment would have answered, and the errors recorded are exactly those of the
  failing fields, each with its message; the rest of the state is unchanged. This is for
  every state whose number is an integer, as the specification has it, or an infinity.
\<close>

theorem invalid_form_sends_no_request:
  assumes "fails (formData s) f"
    and "integerOrInfinite (numberOfPlaces (formData s))"
  shows "snd (handleSubmit now fetch s) = [] \<and>
         (\<forall>g. errors (fst (handleSubmit now fetch s)) g \<noteq> None \<longleftrightarrow> fails (formData s) g) \<and>
         (\<forall>g. errorShown (fst (handleSubmit now fetch s)) g \<longleftrightarrow> fails (formData s) g) \<and>
         (\<forall>g. fails (formData s) g \<longrightarrow>
            errors (fst (handleSubmit now fetch s)) g = Some (validationMessage g)) \<and>
         formData (fst (handleSubmit now fetch s)) = formData s \<and>
         isSubmitting (fst (handleSubmit now fetch s)) = isSubmitting s \<and>
         googleSheetUrl (fst (handleSubmit now fetch s)) = googleSheetUrl s \<and>
         showSuccess (fst (handleSubmit now fetch s)) = showSuccess s"
proof -
  from assms have h: "handleSubmit now fetch s =
      (s\<lparr>errors := (\<lambda>f. if fails (formData s) f then Some (validationMessage f) else None)\<rparr>, [])"
    by (rule handleSubmit_invalid)
  have "\<And>g. validationMessage g \<noteq> []"
    subgoal for g by (cases g) (simp_all add: js_def)
    done
  with h show ?thesis
    by (simp add: errorShown_def truthy_error_def truthy_string_def)
qed

theorem invalid_form_sends_no_request_witness:
  "fails (formData initial_state) SearchTerms \<and>
   integerOrInfinite (numberOfPlaces (formData initial_state)) \<and>
   snd (handleSubmit (js ''2024-01-01T00:00:00.000Z'') (\<lambda>q. Rejected OtherValue) initial_state) = [] \<and>
   errors (fst (handleSubmit (js ''2024-01-01T00:00:00.000Z'') (\<lambda>q. Rejected OtherValue) initial_state))
     NumberOfPlaces = None \<and>
   errors (fst (handleSubmit (js ''2024-01-01T00:00:00.000Z'') (\<lambda>q. Rejected OtherValue) initial_state))
     Location = Some (js ''Location is required'')"
proof -
  let ?s = "fst (handleSubmit (js ''2024-01-01T00:00:00.000Z'') (\<lambda>q. Rejected OtherValue) initial_state)"
  have f: "fails (formData initial_state) SearchTerms"
    by (simp add: initial_state_def trim_def)
  have l: "fails (formData initial_state) Location"
    by (simp add: initial_state_def trim_def)
  have n: "\<not> fails (formData initial_state) NumberOfPlaces"
    by (simp add: initial_state_def inIntegerRange_def isInteger_def)
  have i: "integerOrInfinite (numberOfPlaces (formData initial_state))"
    by (simp add: initial_state_def integerOrInfinite_def isInteger_def)
  note t = invalid_form_sends_no_request [OF f i, of "js ''2024-01-01T00:00:00.000Z''" "\<lambda>q. Rejected OtherValue"]
  from t have "snd (handleSubmit (js ''2024-01-01T00:00:00.000Z'') (\<lambda>q. Rejected OtherValue) initial_state) = []"
    by (rule conjunct1)
  moreover from t n have "errors ?s NumberOfPlaces = None"
    by blast
  moreover from t l have "errors ?s Location = Some (js ''Location is required'')"
    by (metis validationMessage.simps(2))
  ultimately show ?thesis using f i by blast
qed

text \<open>
  Claim C4. When a valid form is submitted and the answer has a success status and a body
  that parses as JSON into a non-empty array whose first element is an object with the
  field "Set Webhook Information", a string that contains a match of the pattern, the
  attempt ends with the success panel shown and the first match captured as the URL, and
  no alert. The witness is the example body of the specification, with the URL ending in
  ABC123.
\<close>

theorem json_field_url_is_captured:
  assumes "valid (formData s)"
    and "fetch (makeRequest now (formData s)) = Fulfilled r"
    and "ok r"
    and "textResult r = Fulfilled responseText"
    and "JSON_parse responseText = Some (JArray (JObject ms # rest))"
    and "ownProperty ms (js ''Set Webhook Information'') = Some (JString info)"
    and "occurs_at info i"
  shows "\<exists>m. first_match info m \<and> sheetUrlMatch info = Some m \<and>
           googleSheetUrl (fst (handleSubmit now fetch s)) = m \<and>
           showSuccess (fst (handleSubmit now fetch s)) \<and>
           successDisplayed (fst (handleSubmit now fetch s)) \<and>
           \<not> isSubmitting (fst (handleSubmit now fetch s)) \<and>
           snd (handleSubmit now fetch s) =
             [Fetch (makeRequest now (formData s)),
              ConsoleLog (js ''Webhook response:'') responseText]"
proof -
  from assms(7) obtain m where m: "sheetUrlMatch info = Some m"
    using sheetUrlMatch_Some_if_occurs by blast
  then have fm: "first_match info m"
    by (simp add: sheetUrlMatch_first_match)
  from m have "is_sheet_url m" by (rule sheetUrlMatch_is_sheet_url)
  then have ne: "m \<noteq> []" by (auto simp: is_sheet_url_def)
  from assms(5,6) m have "tryJson responseText = Inr m"
    by (intro tryJson_field) (simp_all add: sheetKey_def)
  then have "extractUrl responseText = Inr m"
    by (simp add: extractUrl_def)
  with assms(2,3,4) have
    "settle (fetch (makeRequest now (formData s)))
       (s\<lparr>errors := Map.empty, isSubmitting := True, showSuccess := False, googleSheetUrl := []\<rparr>) =
     (s\<lparr>errors := Map.empty, isSubmitting := True, showSuccess := False, googleSheetUrl := []\<rparr>
        \<lparr>googleSheetUrl := m, showSuccess := True, isSubmitting := False\<rparr>,
      [ConsoleLog (js ''Webhook response:'') responseText])"
    by (simp add: settle_success)
  with handleSubmit_valid [OF assms(1), of now fetch] m fm ne show ?thesis
    by (simp add: successDisplayed_def truthy_string_def)
qed

theorem json_field_url_is_captured_witness:
  \<open>valid (formData filledForm) \<and> ok sheetResponse \<and>
   JSON_parse (js ''[{"Set Webhook Information": "link: https://docs.google.com/spreadsheets/d/ABC123"}]'') =
     Some (JArray [JObject [(js ''Set Webhook Information'',
                             JString (js ''link: https://docs.google.com/spreadsheets/d/ABC123''))]]) \<and>
   occurs_at (js ''link: https://docs.google.com/spreadsheets/d/ABC123'') 6 \<and>
   googleSheetUrl (fst (handleSubmit (js ''2024-01-01T00:00:00.000Z'') (\<lambda>q. Fulfilled sheetResponse) filledForm)) =
     js ''https://docs.google.com/spreadsheets/d/ABC123'' \<and>
   showSuccess (fst (handleSubmit (js ''2024-01-01T00:00:00.000Z'') (\<lambda>q. Fulfilled sheetResponse) filledForm)) \<and>
   \<not> isSubmitting (fst (handleSubmit (js ''2024-01-01T00:00:00.000Z'') (\<lambda>q. Fulfilled sheetResponse) filledForm))\<close>
proof -
  have k: "ok sheetResponse" by (simp add: ok_def sheetResponse_def)
  have t: \<open>textResult sheetResponse = Fulfilled
      (js ''[{"Set Webhook Information": "link: https://docs.google.com/spreadsheets/d/ABC123"}]'')\<close>
    by (simp add: sheetResponse_def)
  have p: "ownProperty [(js ''Set Webhook Information'',
                JString (js ''link: https://docs.google.com/spreadsheets/d/ABC123''))]
             (js ''Set Webhook Information'') =
           Some (JString (js ''link: https://docs.google.com/spreadsheets/d/ABC123''))"
    by (simp add: ownProperty_def)
  from json_field_url_is_captured [OF filledForm_valid _ k t parse_sheet_body p occurs_sheet_info,
      of "\<lambda>q. Fulfilled sheetResponse" "js ''2024-01-01T00:00:00.000Z''"]
  show ?thesis
    using filledForm_valid k parse_sheet_body occurs_sheet_info match_sheet_info by auto
qed

text \<open>
  Claim C5. When a valid form is submitted and the answer has a success status and a body
  that is not valid JSON, the raw text is searched with the pattern: if the pattern occurs,
  the attempt ends with the success panel shown and the first match as the URL; if it
  occurs nowhere, the attempt ends with no URL, the success panel hidden and the alert
  "Response is not valid JSON and no Google Sheet URL found". The witness is the example
  body of the specification, with the URL ending in XYZ789.
\<close>

theorem non_json_body_is_searched:
  assumes "valid (formData s)"
    and "fetch (makeRequest now (formData s)) = Fulfilled r"
    and "ok r"
    and "textResult r = Fulfilled responseText"
    and "JSON_parse responseText = None"
  shows "((\<exists>i. occurs_at responseText i) \<longrightarrow>
            (\<exists>m. first_match responseText m \<and> sheetUrlMatch responseText = Some m \<and>
               googleSheetUrl (fst (handleSubmit now fetch s)) = m \<and>
               showSuccess (fst (handleSubmit now fetch s)) \<and>
               successDisplayed (fst (handleSubmit now fetch s)) \<and>
               snd (handleSubmit now fetch s) =
                 [Fetch (makeRequest now (formData s)),
                  ConsoleLog (js ''Webhook response:'') responseText])) \<and>
         ((\<forall>i. \<not> occurs_at responseText i) \<longrightarrow>
            googleSheetUrl (fst (handleSubmit now fetch s)) = [] \<and>
            \<not> showSuccess (fst (handleSubmit now fetch s)) \<and>
            snd (handleSubmit now fetch s) =
              [Fetch (makeRequest now (formData s)),
               ConsoleLog (js ''Webhook response:'') responseText,
               ConsoleError (js ''Error submitting form:'')
                 (ErrorInstance (js ''Response is not valid JSON and no Google Sheet URL found'')),
               Alert (js ''Error submitting form: Response is not valid JSON and no Google Sheet URL found'')]) \<and>
         \<not> isSubmitting (fst (handleSubmit now fetch s))"
proof -
  let ?s1 = "s\<lparr>errors := Map.empty, isSubmitting := True, showSuccess := False, googleSheetUrl := []\<rparr>"
  note h = handleSubmit_valid [OF assms(1), of now fetch]
  from assms(5) have tj: "tryJson responseText = Inl SyntaxError"
    by (simp add: tryJson_def)
  have found: "\<exists>m. first_match responseText m \<and> sheetUrlMatch responseText = Some m \<and>
               googleSheetUrl (fst (handleSubmit now fetch s)) = m \<and>
               showSuccess (fst (handleSubmit now fetch s)) \<and>
               successDisplayed (fst (handleSubmit now fetch s)) \<and>
               snd (handleSubmit now fetch s) =
                 [Fetch (makeRequest now (formData s)),
                  ConsoleLog (js ''Webhook response:'') responseText]"
    if "\<exists>i. occurs_at responseText i"
  proof -
    from that obtain m where m: "sheetUrlMatch responseText = Some m"
      using sheetUrlMatch_Some_if_occurs by blast
    then have fm: "first_match responseText m"
      by (simp add: sheetUrlMatch_first_match)
    from m have "is_sheet_url m" by (rule sheetUrlMatch_is_sheet_url)
    then have ne: "m \<noteq> []" by (auto simp: is_sheet_url_def)
    from tj m have "extractUrl responseText = Inr m"
      by (simp add: extractUrl_def)
    with assms(2,3,4) have "settle (fetch (makeRequest now (formData s))) ?s1 =
       (?s1\<lparr>googleSheetUrl := m, showSuccess := True, isSubmitting := False\<rparr>,
        [ConsoleLog (js ''Webhook response:'') responseText])"
      by (simp add: settle_success)
    with h m fm ne show ?thesis
      by (simp add: successDisplayed_def truthy_string_def)
  qed
  have missing: "googleSheetUrl (fst (handleSubmit now fetch s)) = [] \<and>
            \<not> showSuccess (fst (handleSubmit now fetch s)) \<and>
            snd (handleSubmit now fetch s) =
              [Fetch (makeRequest now (formData s)),
               ConsoleLog (js ''Webhook response:'') responseText,
               ConsoleError (js ''Error submitting form:'')
                 (ErrorInstance (js ''Response is not valid JSON and no Google Sheet URL found'')),
               Alert (js ''Error submitting form: Response is not valid JSON and no Google Sheet URL found'')]"
    if "\<forall>i. \<not> occurs_at responseText i"
  proof -
    from that have "sheetUrlMatch responseText = None"
      by (simp add: sheetUrlMatch_None_iff)
    with tj have "extractUrl responseText =
        Inl (ErrorInstance (js ''Response is not valid JSON and no Google Sheet URL found''))"
      by (simp add: extractUrl_def)
    with assms(2,3,4) have "settle (fetch (makeRequest now (formData s))) ?s1 =
       (?s1\<lparr>isSubmitting := False\<rparr>,
        [ConsoleLog (js ''Webhook response:'') responseText,
         ConsoleError (js ''Error submitting form:'')
           (ErrorInstance (js ''Response is not valid JSON and no Google Sheet URL found'')),
         Alert (js ''Error submitting form: '' @
           errorMessage (ErrorInstance (js ''Response is not valid JSON and no Google Sheet URL found'')))])"
      by (simp add: settle_no_url)
    with h show ?thesis
      by (simp add: errorMessage_def js_def)
  qed
  have "settles (fetch (makeRequest now (formData s)))"
    using assms(2,3,4) by (simp add: settles_def)
  then have "\<not> isSubmitting (fst (handleSubmit now fetch s))"
    using h settle_isSubmitting by simp
  with found missing show ?thesis by blast
qed

theorem non_json_body_is_searched_witness:
  "valid (formData filledForm) \<and> ok plainTextResponse \<and>
   JSON_parse (js ''see https://docs.google.com/spreadsheets/d/XYZ789 for results'') = None \<and>
   occurs_at (js ''see https://docs.google.com/spreadsheets/d/XYZ789 for results'') 4 \<and>
   googleSheetUrl (fst (handleSubmit (js ''2024-01-01T00:00:00.000Z'') (\<lambda>q. Fulfilled plainTextResponse) filledForm)) =
     js ''https://docs.google.com/spreadsheets/d/XYZ789'' \<and>
   showSuccess (fst (handleSubmit (js ''2024-01-01T00:00:00.000Z'') (\<lambda>q. Fulfilled plainTextResponse) filledForm))"
proof -
  have k: "ok plainTextResponse" by (simp add: ok_def plainTextResponse_def)
  have t: "textResult plainTextResponse =
      Fulfilled (js ''see https://docs.google.com/spreadsheets/d/XYZ789 for results'')"
    by (simp add: plainTextResponse_def)
  have o: "occurs_at (js ''see https://docs.google.com/spreadsheets/d/XYZ789 for results'') 4"
    unfolding occurs_at_def
    by (rule exI [of _ "js ''https://docs.google.com/spreadsheets/d/XYZ789''"]) code_simp
  from non_json_body_is_searched [OF filledForm_valid _ k t parse_plain_body,
      of "\<lambda>q. Fulfilled plainTextResponse" "js ''2024-01-01T00:00:00.000Z''"]
  show ?thesis
    using filledForm_valid k parse_plain_body o match_plain_body by auto
qed

text \<open>
  Claim C6. When a valid form is submitted and the answer has a status outside 200 to 299,
  the attempt ends with no URL captured, the success panel hidden, and an alert that names
  the status; the body is not read: nothing of it is logged, and the outcome is the same
  whatever reading the body would have given.
\<close>

theorem http_error_status_fails:
  assumes "valid (formData s)"
    and "fetch (makeRequest now (formData s)) = Fulfilled r"
    and "\<not> ok r"
  shows "googleSheetUrl (fst (handleSubmit now fetch s)) = [] \<and>
         \<not> showSuccess (fst (handleSubmit now fetch s)) \<and>
         \<not> successDisplayed (fst (handleSubmit now fetch s)) \<and>
         \<not> isSubmitting (fst (handleSubmit now fetch s)) \<and>
         snd (handleSubmit now fetch s) =
           [Fetch (makeRequest now (formData s)),
            ConsoleError (js ''Error submitting form:'')
              (ErrorInstance (js ''HTTP error! status: '' @ decimal (status r))),
            Alert (js ''Error submitting form: HTTP error! status: '' @ decimal (status r))] \<and>
         (\<forall>t. handleSubmit now (\<lambda>q. Fulfilled (r\<lparr>textResult := t\<rparr>)) s = handleSubmit now fetch s)"
proof -
  let ?s1 = "s\<lparr>errors := Map.empty, isSubmitting := True, showSuccess := False, googleSheetUrl := []\<rparr>"
  have e: "settle (Fulfilled r') ?s1 =
     (?s1\<lparr>isSubmitting := False\<rparr>,
      [ConsoleError (js ''Error submitting form:'')
         (ErrorInstance (js ''HTTP error! status: '' @ decimal (status r))),
       Alert (js ''Error submitting form: HTTP error! status: '' @ decimal (status r))])"
    if "status r' = status r" for r'
  proof -
    from that assms(3) have "\<not> ok r'" by (simp add: ok_def)
    then show ?thesis using that by (simp add: settle_http_error)
  qed
  have a: "handleSubmit now fetch s =
     (?s1\<lparr>isSubmitting := False\<rparr>,
      [Fetch (makeRequest now (formData s)),
       ConsoleError (js ''Error submitting form:'')
         (ErrorInstance (js ''HTTP error! status: '' @ decimal (status r))),
       Alert (js ''Error submitting form: HTTP error! status: '' @ decimal (status r))])"
    using handleSubmit_valid [OF assms(1), of now fetch] assms(2) e [of r] by simp
  have b: "handleSubmit now (\<lambda>q. Fulfilled (r\<lparr>textResult := t\<rparr>)) s = handleSubmit now fetch s" for t
    using handleSubmit_valid [OF assms(1), of now "\<lambda>q. Fulfilled (r\<lparr>textResult := t\<rparr>)"]
      e [of "r\<lparr>textResult := t\<rparr>"] a by simp
  from a b show ?thesis
    by (simp add: successDisplayed_def)
qed

theorem http_error_status_fails_witness:
  "valid (formData filledForm) \<and>
   \<not> ok \<lparr>status = 500, textResult = Fulfilled (js ''https://docs.google.com/spreadsheets/d/ABC123'')\<rparr> \<and>
   googleSheetUrl (fst (handleSubmit (js ''2024-01-01T00:00:00.000Z'')
     (\<lambda>q. Fulfilled \<lparr>status = 500, textResult = Fulfilled (js ''https://docs.google.com/spreadsheets/d/ABC123'')\<rparr>)
     filledForm)) = [] \<and>
   \<not> showSuccess (fst (handleSubmit (js ''2024-01-01T00:00:00.000Z'')
     (\<lambda>q. Fulfilled \<lparr>status = 500, textResult = Fulfilled (js ''https://docs.google.com/spreadsheets/d/ABC123'')\<rparr>)
     filledForm)) \<and>
   snd (handleSubmit (js ''2024-01-01T00:00:00.000Z'')
     (\<lambda>q. Fulfilled \<lparr>status = 500, textResult = Fulfilled (js ''https://docs.google.com/spreadsheets/d/ABC123'')\<rparr>)
     filledForm) =
     [Fetch (makeRequest (js ''2024-01-01T00:00:00.000Z'') (formData filledForm)),
      ConsoleError (js ''Error submitting form:'') (ErrorInstance (js ''HTTP error! status: 500'')),
      Alert (js ''Error submitting form: HTTP error! status: 500'')]"
proof -
  let ?r = "\<lparr>status = 500, textResult = Fulfilled (js ''https://docs.google.com/spreadsheets/d/ABC123'')\<rparr>"
  have k: "\<not> ok ?r" by (simp add: ok_def)
  have d: "decimal 500 = js ''500''" by code_simp
  from http_error_status_fails [OF filledForm_valid _ k, of "\<lambda>q. Fulfilled ?r" "js ''2024-01-01T00:00:00.000Z''"]
  show ?thesis
    using filledForm_valid k d by (simp add: js_def)
qed

text \<open>
  Claim C7 says that every attempt that enters the submitting state ends with the flag
  cleared. The code awaits the request and the reading of the body with no time limit, so
  this fails where one of them stays pending: the valid form is submitted, the flag is
  set, the request is sent, and nothing more happens, whether it is the request that stays
  pending or the reading of the body of a response with status 200.
\<close>

theorem pending_request_stays_submitting:
  "valid (formData filledForm) \<and>
   isSubmitting (fst (handleSubmit (js ''2024-01-01T00:00:00.000Z'') pendingRequest filledForm)) \<and>
   submitDisabled (fst (handleSubmit (js ''2024-01-01T00:00:00.000Z'') pendingRequest filledForm)) \<and>
   snd (handleSubmit (js ''2024-01-01T00:00:00.000Z'') pendingRequest filledForm) =
     [Fetch (makeRequest (js ''2024-01-01T00:00:00.000Z'') (formData filledForm))] \<and>
   isSubmitting (fst (handleSubmit (js ''2024-01-01T00:00:00.000Z'') pendingBody filledForm)) \<and>
   submitDisabled (fst (handleSubmit (js ''2024-01-01T00:00:00.000Z'') pendingBody filledForm)) \<and>
   snd (handleSubmit (js ''2024-01-01T00:00:00.000Z'') pendingBody filledForm) =
     [Fetch (makeRequest (js ''2024-01-01T00:00:00.000Z'') (formData filledForm))]"
proof -
  have a: "\<not> settles (pendingRequest q)" for q
    by (simp add: settles_def pendingRequest_def)
  have b: "\<not> settles (pendingBody q)" for q
    by (simp add: settles_def ok_def pendingBody_def)
  show ?thesis
    using filledForm_valid
      handleSubmit_valid [OF filledForm_valid, of "js ''2024-01-01T00:00:00.000Z''" pendingRequest]
      handleSubmit_valid [OF filledForm_valid, of "js ''2024-01-01T00:00:00.000Z''" pendingBody]
      settle_pending [OF a] settle_pending [OF b]
    by (simp add: submitDisabled_def)
qed

text \<open>
  Claim C7, amended. A submit of a valid form sets the submitting flag, which disables the
  submit control, and sends the request. If the request and the reading of the body settle
  (a rejected request, a status outside 200 to 299, a body that cannot be read, a body with
  or without a URL), the attempt ends with the flag cleared and the control enabled, and
  the continuation clears the flag in whatever state it finds the component. While one of
  them stays pending, the flag stays set and nothing but the request has happened.
\<close>

theorem submitting_ends_when_settled:
  assumes "valid (formData s)"
  shows "isSubmitting (fst (submitStart now s)) \<and>
         submitDisabled (fst (submitStart now s)) \<and>
         snd (submitStart now s) = Some (makeRequest now (formData s)) \<and>
         (\<forall>fetch. settles (fetch (makeRequest now (formData s))) \<longrightarrow>
            \<not> isSubmitting (fst (handleSubmit now fetch s)) \<and>
            \<not> submitDisabled (fst (handleSubmit now fetch s))) \<and>
         (\<forall>fetch. \<not> settles (fetch (makeRequest now (formData s))) \<longrightarrow>
            isSubmitting (fst (handleSubmit now fetch s)) \<and>
            snd (handleSubmit now fetch s) = [Fetch (makeRequest now (formData s))]) \<and>
         (\<forall>outcome s'. settles outcome \<longrightarrow>
            \<not> isSubmitting (fst (settle outcome s')) \<and>
            \<not> submitDisabled (fst (settle outcome s')))"
proof -
  have "\<not> isSubmitting (fst (handleSubmit now fetch s))"
    if "settles (fetch (makeRequest now (formData s)))" for fetch
    using handleSubmit_valid [OF assms, of now fetch] settle_isSubmitting [OF that] by simp
  moreover have "isSubmitting (fst (handleSubmit now fetch s)) \<and>
      snd (handleSubmit now fetch s) = [Fetch (makeRequest now (formData s))]"
    if "\<not> settles (fetch (makeRequest now (formData s)))" for fetch
    using handleSubmit_valid [OF assms, of now fetch] settle_pending [OF that] by simp
  ultimately show ?thesis
    using submitStart_valid [OF assms, of now] settle_isSubmitting
    by (simp add: submitDisabled_def)
qed

theorem submitting_ends_when_settled_witness:
  "valid (formData filledForm) \<and>
   settles (Fulfilled sheetResponse) \<and> settles (Fulfilled plainTextResponse) \<and>
   settles (Fulfilled \<lparr>status = 200, textResult = Fulfilled (js ''{}'')\<rparr>) \<and>
   settles (Fulfilled \<lparr>status = 200, textResult = Rejected OtherValue\<rparr>) \<and>
   settles (Fulfilled \<lparr>status = 500, textResult = Pending\<rparr>) \<and>
   settles (Rejected (ErrorInstance (js ''Failed to fetch'')) :: response promise) \<and>
   isSubmitting (fst (submitStart (js ''2024-01-01T00:00:00.000Z'') filledForm)) \<and>
   \<not> isSubmitting (fst (handleSubmit (js ''2024-01-01T00:00:00.000Z'') (\<lambda>q. Fulfilled sheetResponse) filledForm)) \<and>
   \<not> isSubmitting (fst (handleSubmit (js ''2024-01-01T00:00:00.000Z'') (\<lambda>q. Fulfilled plainTextResponse) filledForm)) \<and>
   \<not> isSubmitting (fst (handleSubmit (js ''2024-01-01T00:00:00.000Z'')
       (\<lambda>q. Fulfilled \<lparr>status = 200, textResult = Fulfilled (js ''{}'')\<rparr>) filledForm)) \<and>
   \<not> isSubmitting (fst (handleSubmit (js ''2024-01-01T00:00:00.000Z'')
       (\<lambda>q. Fulfilled \<lparr>status = 200, textResult = Rejected OtherValue\<rparr>) filledForm)) \<and>
   \<not> isSubmitting (fst (handleSubmit (js ''2024-01-01T00:00:00.000Z'')
       (\<lambda>q. Fulfilled \<lparr>status = 500, textResult = Pending\<rparr>) filledForm)) \<and>
   \<not> isSubmitting (fst (handleSubmit (js ''2024-01-01T00:00:00.000Z'')
       (\<lambda>q. Rejected (ErrorInstance (js ''Failed to fetch''))) filledForm))"
proof -
  have a: "settles (Fulfilled sheetResponse)" "settles (Fulfilled plainTextResponse)"
    "settles (Fulfilled \<lparr>status = 200, textResult = Fulfilled (js ''{}'')\<rparr>)"
    "settles (Fulfilled \<lparr>status = 200, textResult = Rejected OtherValue\<rparr>)"
    "settles (Fulfilled \<lparr>status = 500, textResult = Pending\<rparr>)"
    "settles (Rejected (ErrorInstance (js ''Failed to fetch'')) :: response promise)"
    by (simp_all add: settles_def ok_def sheetResponse_def plainTextResponse_def)
  note t = submitting_ends_when_settled [OF filledForm_valid, of "js ''2024-01-01T00:00:00.000Z''"]
  from t have s: "isSubmitting (fst (submitStart (js ''2024-01-01T00:00:00.000Z'') filledForm))"
    by (rule conjunct1)
  from t have f: "\<not> isSubmitting (fst (handleSubmit (js ''2024-01-01T00:00:00.000Z'') fetch filledForm))"
    if "settles (fetch (makeRequest (js ''2024-01-01T00:00:00.000Z'') (formData filledForm)))" for fetch
    using that by blast
  show ?thesis
    using filledForm_valid a s
      f [of "\<lambda>q. Fulfilled sheetResponse"] f [of "\<lambda>q. Fulfilled plainTextResponse"]
      f [of "\<lambda>q. Fulfilled \<lparr>status = 200, textResult = Fulfilled (js ''{}'')\<rparr>"]
      f [of "\<lambda>q. Fulfilled \<lparr>status = 200, textResult = Rejected OtherValue\<rparr>"]
      f [of "\<lambda>q. Fulfilled \<lparr>status = 500, textResult = Pending\<rparr>"]
      f [of "\<lambda>q. Rejected (ErrorInstance (js ''Failed to fetch''))"]
    by simp
qed

text \<open>
  Claim C8. An edit of a field stores the new value in that field and leaves the other
  two fields as they were; if an error is shown for the edited field, that error is
  cleared; the errors of the other fields stay, and so does the submitting flag; if the
  success panel is shown, the edit hides it and clears the captured URL, and otherwise
  the URL stays.
\<close>

theorem edit_clears_only_its_error:
  "formData (handleInputChange ch s) = set_field ch (formData s) \<and>
   (errorShown s (field_of ch) \<longrightarrow> errors (handleInputChange ch s) (field_of ch) = None) \<and>
   (\<not> errorShown s (field_of ch) \<longrightarrow> errors (handleInputChange ch s) = errors s) \<and>
   (\<forall>g. g \<noteq> field_of ch \<longrightarrow> errors (handleInputChange ch s) g = errors s g) \<and>
   isSubmitting (handleInputChange ch s) = isSubmitting s \<and>
   (showSuccess s \<longrightarrow>
      \<not> showSuccess (handleInputChange ch s) \<and> googleSheetUrl (handleInputChange ch s) = []) \<and>
   (successDisplayed s \<longrightarrow>
      \<not> successDisplayed (handleInputChange ch s) \<and> googleSheetUrl (handleInputChange ch s) = []) \<and>
   (\<not> showSuccess s \<longrightarrow>
      \<not> showSuccess (handleInputChange ch s) \<and>
      googleSheetUrl (handleInputChange ch s) = googleSheetUrl s) \<and>
   (field_of ch \<noteq> SearchTerms \<longrightarrow>
      searchTerms (formData (handleInputChange ch s)) = searchTerms (formData s)) \<and>
   (field_of ch \<noteq> Location \<longrightarrow>
      location (formData (handleInputChange ch s)) = location (formData s)) \<and>
   (field_of ch \<noteq> NumberOfPlaces \<longrightarrow>
      numberOfPlaces (formData (handleInputChange ch s)) = numberOfPlaces (formData s))"
  by (cases ch) (simp_all add: handleInputChange_def Let_def errorShown_def successDisplayed_def)

theorem edit_clears_only_its_error_witness:
  "errorShown twoErrorsShown SearchTerms \<and> successDisplayed twoErrorsShown \<and>
   searchTerms (formData (handleInputChange (SearchTermsChange (js ''cafe'')) twoErrorsShown)) = js ''cafe'' \<and>
   errors (handleInputChange (SearchTermsChange (js ''cafe'')) twoErrorsShown) SearchTerms = None \<and>
   errors (handleInputChange (SearchTermsChange (js ''cafe'')) twoErrorsShown) Location =
     Some (js ''Location is required'') \<and>
   \<not> showSuccess (handleInputChange (SearchTermsChange (js ''cafe'')) twoErrorsShown) \<and>
   googleSheetUrl (handleInputChange (SearchTermsChange (js ''cafe'')) twoErrorsShown) = []"
proof -
  have e: "errorShown twoErrorsShown SearchTerms"
    by (simp add: errorShown_def twoErrorsShown_def truthy_error_def truthy_string_def js_def)
  have d: "successDisplayed twoErrorsShown"
    by (simp add: successDisplayed_def twoErrorsShown_def truthy_string_def js_def)
  have l: "errors twoErrorsShown Location = Some (js ''Location is required'')"
    by (simp add: twoErrorsShown_def)
  from edit_clears_only_its_error [of "SearchTermsChange (js ''cafe'')" twoErrorsShown]
  show ?thesis using e d l by (simp add: successDisplayed_def)
qed

text \<open>
  Claim C9 says that the stored number is always an integer. It is not: the input value
  that is a 1 with 309 zeros and the exponent -309 (a valid number, equal to 1) has
  \<^verbatim>\<open>parseInt\<close> read the 310 digits, an integer beyond the doubles, and Infinity is stored.
\<close>

theorem huge_input_stores_infinity:
  "numberOfPlaces (formData (numberOfPlacesOnChange hugeInput filledForm)) = PlusInfinity \<and>
   \<not> isInteger (numberOfPlaces (formData (numberOfPlacesOnChange hugeInput filledForm)))"
  by (simp add: numberOfPlacesOnChange_stored parseIntOrZero_eq parseInt_huge isInteger_def)

text \<open>
  Claim C9, amended. A change of the number input stores what \<^verbatim>\<open>parseInt\<close> reads from the
  input string, and 0 when that is \<^verbatim>\<open>NaN\<close> (the emptied field is one such string). The
  stored number is never \<^verbatim>\<open>NaN\<close> and never has a fraction: it is an integer, or an infinity
  when the digits read are beyond the doubles. The 0 stored for a string that does not
  parse fails validation, and so does an infinity: a submit records the error and sends
  nothing. In every reachable state the number of the form is an integer or an infinity.
\<close>

theorem numberOfPlaces_is_parsed_or_zero:
  "numberOfPlaces (formData (numberOfPlacesOnChange v s)) =
     (if parseInt v = NotANumber then Double 0 else parseInt v) \<and>
   numberOfPlaces (formData (numberOfPlacesOnChange v s)) \<noteq> NotANumber \<and>
   (isInteger (numberOfPlaces (formData (numberOfPlacesOnChange v s))) \<or>
    numberOfPlaces (formData (numberOfPlacesOnChange v s)) = PlusInfinity \<or>
    numberOfPlaces (formData (numberOfPlacesOnChange v s)) = MinusInfinity) \<and>
   (parseInt v = NotANumber \<or> parseInt v = PlusInfinity \<or> parseInt v = MinusInfinity \<longrightarrow>
      fails (formData (numberOfPlacesOnChange v s)) NumberOfPlaces \<and>
      errors (fst (validateForm (numberOfPlacesOnChange v s))) NumberOfPlaces =
        Some (js ''Number must be between 1 and 100'') \<and>
      \<not> snd (validateForm (numberOfPlacesOnChange v s)) \<and>
      snd (handleSubmit now fetch (numberOfPlacesOnChange v s)) = []) \<and>
   parseInt [] = NotANumber \<and>
   (reachable s \<longrightarrow> integerOrInfinite (numberOfPlaces (formData s)))"
proof -
  let ?s = "numberOfPlacesOnChange v s"
  have n: "numberOfPlaces (formData ?s) = (if parseInt v = NotANumber then Double 0 else parseInt v)"
    by (simp add: numberOfPlacesOnChange_stored parseIntOrZero_eq)
  have i: "integerOrInfinite (numberOfPlaces (formData ?s))"
    by (simp add: numberOfPlacesOnChange_stored parseIntOrZero_integerOrInfinite)
  have z: "fails (formData ?s) NumberOfPlaces \<and>
      errors (fst (validateForm ?s)) NumberOfPlaces = Some (js ''Number must be between 1 and 100'') \<and>
      \<not> snd (validateForm ?s) \<and> snd (handleSubmit now fetch ?s) = []"
    if "parseInt v = NotANumber \<or> parseInt v = PlusInfinity \<or> parseInt v = MinusInfinity"
  proof -
    from that n have "numberOfPlaces (formData ?s) = Double 0 \<or>
        numberOfPlaces (formData ?s) = PlusInfinity \<or> numberOfPlaces (formData ?s) = MinusInfinity"
      by auto
    then have r: "rejects (formData ?s) NumberOfPlaces" by auto
    then have f: "fails (formData ?s) NumberOfPlaces" by (rule rejects_imp_fails)
    from r have v: "\<not> snd (validateForm ?s)" unfolding validateForm_ok_iff by blast
    from r have e: "errors (fst (validateForm ?s)) NumberOfPlaces =
        Some (js ''Number must be between 1 and 100'')"
      by (simp add: validateForm_errors_eq)
    have h: "snd (handleSubmit now fetch ?s) = []"
      using handleSubmit_rejected [OF r, of now fetch] by simp
    from f e v h show ?thesis by blast
  qed
  have nn: "numberOfPlaces (formData ?s) \<noteq> NotANumber"
    by (simp add: numberOfPlacesOnChange_stored parseIntOrZero_not_NaN)
  have ii: "isInteger (numberOfPlaces (formData ?s)) \<or>
      numberOfPlaces (formData ?s) = PlusInfinity \<or> numberOfPlaces (formData ?s) = MinusInfinity"
    using i by (simp only: integerOrInfinite_def)
  have zz: "parseInt v = NotANumber \<or> parseInt v = PlusInfinity \<or> parseInt v = MinusInfinity \<longrightarrow>
      fails (formData ?s) NumberOfPlaces \<and>
      errors (fst (validateForm ?s)) NumberOfPlaces = Some (js ''Number must be between 1 and 100'') \<and>
      \<not> snd (validateForm ?s) \<and> snd (handleSubmit now fetch ?s) = []"
    using z by blast
  have rr: "reachable s \<longrightarrow> integerOrInfinite (numberOfPlaces (formData s))"
    using reachable_number by blast
  show ?thesis
    by (intro conjI n nn ii zz parseInt_empty rr)
qed

theorem numberOfPlaces_is_parsed_or_zero_witness:
  "parseInt (js ''abc'') = NotANumber \<and> parseInt (js ''42'') = Double 42 \<and>
   parseInt (js ''1.5'') = Double 1 \<and>
   parseInt (js ''9007199254740993'') = Double 9007199254740992 \<and>
   parseInt hugeInput = PlusInfinity \<and>
   reachable (numberOfPlacesOnChange hugeInput initial_state) \<and>
   numberOfPlaces (formData (numberOfPlacesOnChange (js ''abc'') filledForm)) = Double 0 \<and>
   numberOfPlaces (formData (numberOfPlacesOnChange [] filledForm)) = Double 0 \<and>
   numberOfPlaces (formData (numberOfPlacesOnChange (js ''42'') filledForm)) = Double 42 \<and>
   numberOfPlaces (formData (numberOfPlacesOnChange (js ''1.5'') filledForm)) = Double 1 \<and>
   numberOfPlaces (formData (numberOfPlacesOnChange (js ''9007199254740993'') filledForm)) =
     Double 9007199254740992 \<and>
   errors (fst (validateForm (numberOfPlacesOnChange (js ''abc'') filledForm))) NumberOfPlaces =
     Some (js ''Number must be between 1 and 100'') \<and>
   errors (fst (validateForm (numberOfPlacesOnChange hugeInput filledForm))) NumberOfPlaces =
     Some (js ''Number must be between 1 and 100'') \<and>
   integerOrInfinite (numberOfPlaces (formData (numberOfPlacesOnChange hugeInput initial_state)))"
proof -
  have r: "reachable (numberOfPlacesOnChange hugeInput initial_state)"
    by (intro reachable.numberOfPlaces reachable.initial)
  note t = numberOfPlaces_is_parsed_or_zero
  from t [of "js ''abc''" filledForm "js ''2024''" "\<lambda>q. Rejected OtherValue"]
    t [of "[]" filledForm "js ''2024''" "\<lambda>q. Rejected OtherValue"]
    t [of "js ''42''" filledForm "js ''2024''" "\<lambda>q. Rejected OtherValue"]
    t [of "js ''1.5''" filledForm "js ''2024''" "\<lambda>q. Rejected OtherValue"]
    t [of "js ''9007199254740993''" filledForm "js ''2024''" "\<lambda>q. Rejected OtherValue"]
    t [of hugeInput filledForm "js ''2024''" "\<lambda>q. Rejected OtherValue"]
    t [of "[]" "numberOfPlacesOnChange hugeInput initial_state" "js ''2024''" "\<lambda>q. Rejected OtherValue"]
  show ?thesis
    using r parseInt_text parseInt_42 parseInt_fraction parseInt_rounds parseInt_huge by simp
qed

text \<open>
  Claim C10. In every reachable state in which the success panel is displayed, the
  captured URL is not empty: it is https://docs.google.com/spreadsheets/d/ followed by at
  least one character, all of them letters, digits, hyphens or underscores.
\<close>

theorem displayed_url_is_a_sheet_url:
  assumes "reachable s" and "successDisplayed s"
  shows "googleSheetUrl s \<noteq> [] \<and> is_sheet_url (googleSheetUrl s) \<and>
         (\<exists>c rest. googleSheetUrl s = js ''https://docs.google.com/spreadsheets/d/'' @ c # rest \<and>
            isIdChar c \<and> (\<forall>d \<in> set rest. isIdChar d))"
proof -
  from assms have "is_sheet_url (googleSheetUrl s)"
    using reachable_url by (simp add: successDisplayed_def)
  then show ?thesis
    using is_sheet_url_shape [of "googleSheetUrl s"] by (simp add: sheetPrefix_def)
qed

theorem displayed_url_is_a_sheet_url_witness:
  "reachable afterSheetResponse \<and> successDisplayed afterSheetResponse \<and>
   googleSheetUrl afterSheetResponse = js ''https://docs.google.com/spreadsheets/d/ABC123'' \<and>
   is_sheet_url (googleSheetUrl afterSheetResponse)"
proof -
  have r: "reachable afterSheetResponse"
    unfolding afterSheetResponse_def
    by (intro reachable.settled reachable.submit reachable.location reachable.searchTerms
        reachable.initial)
  have d: "successDisplayed afterSheetResponse"
    using afterSheetResponse_url by (simp add: successDisplayed_def truthy_string_def js_def)
  from displayed_url_is_a_sheet_url [OF r d] show ?thesis
    using r d afterSheetResponse_url by simp
qed

end
